theory Spec2Isabelle
  imports Complex_Main
begin

section \<open>JavaScript values used by the client\<close>

text \<open>
  A JavaScript string is a sequence of UTF-16 code units; a code unit is a natural
  number below 65536. \<open>js\<close> turns a literal of this theory into such a sequence.
\<close>

type_synonym jstring = "nat list"

definition js :: "string \<Rightarrow> jstring" where
  "js s = map of_char s"

text \<open>
  The values \<open>JSON.parse\<close> produces. \<open>JNum q\<close> stands for the double nearest to the
  rational \<open>q\<close>. An object keeps its members in source order; reading a property takes
  the last member with that key, as \<open>JSON.parse\<close> lets a later duplicate win.
  A \<open>jsval\<close> is a value or \<open>undefined\<close> (\<open>None\<close>).
\<close>

datatype json =
    JNull
  | JBool bool
  | JNum rat
  | JStr jstring
  | JArr "json list"
  | JObj "(jstring \<times> json) list"

type_synonym jsval = "json option"

text \<open>
  ToBoolean: \<open>undefined\<close>, \<open>null\<close>, \<open>false\<close>, zero and the empty string are falsy.
  A number is zero as a double when its magnitude is at most \<open>2 ^ -1075\<close>, half the
  least subnormal (the tie rounds to even, which is zero).
\<close>

fun truthy :: "jsval \<Rightarrow> bool" where
  "truthy None = False"
| "truthy (Some JNull) = False"
| "truthy (Some (JBool b)) = b"
| "truthy (Some (JNum q)) = (\<bar>q\<bar> * 2 ^ 1075 > 1)"
| "truthy (Some (JStr s)) = (s \<noteq> [])"
| "truthy (Some (JArr xs)) = True"
| "truthy (Some (JObj ms)) = True"

text \<open>The same test on a value that is a string or \<open>undefined\<close>.\<close>

definition truthy_string :: "jstring option \<Rightarrow> bool" where
  "truthy_string s = (case s of None \<Rightarrow> False | Some t \<Rightarrow> t \<noteq> [])"

datatype js_number = NaN | Num int

text \<open>
  The errors that cross the client's boundary. The three classes of
  \<open>utils/errors\<close> carry the arguments their constructors are called with in
  \<open>client.ts\<close>; \<open>PineconeApiError\<close> is given whatever value the expression
  \<open>errorJson.error?.message || errorJson.message || message\<close> has, which is a string only
  when the server sent one. The others are the platform's: \<open>SyntaxError\<close> of
  \<open>JSON.parse\<close>, \<open>TypeError\<close> of a property read on \<open>undefined\<close> or \<open>null\<close>,
  \<open>URIError\<close> of \<open>encodeURIComponent\<close>, the rejection of \<open>fetch\<close>, and a plain
  \<open>Error\<close> with its message.
\<close>

datatype js_error =
    AuthenticationError jstring
  | RateLimitError jstring js_number
  | PineconeApiError json nat
  | Error jstring
  | SyntaxError
  | TypeError
  | URIError
  | FetchRejected

subsection \<open>Property reads\<close>

definition obj_get :: "(jstring \<times> json) list \<Rightarrow> jstring \<Rightarrow> jsval" where
  "obj_get ms k = map_of (rev ms) k"

text \<open>
  \<open>v.k\<close> for the property names the code reads (\<open>error\<close>, \<open>message\<close>, \<open>host\<close>,
  \<open>matches\<close>, \<open>namespace\<close>, \<open>usage\<close>): none of them is inherited from a prototype, so
  only an object can have one. Reading from \<open>undefined\<close> or \<open>null\<close> throws.
\<close>

fun member :: "jsval \<Rightarrow> jstring \<Rightarrow> js_error + jsval" where
  "member None k = Inl TypeError"
| "member (Some JNull) k = Inl TypeError"
| "member (Some (JObj ms)) k = Inr (obj_get ms k)"
| "member (Some v) k = Inr None"

text \<open>\<open>v?.k\<close>: \<open>undefined\<close> when \<open>v\<close> is \<open>undefined\<close> or \<open>null\<close>.\<close>

fun opt_member :: "jsval \<Rightarrow> jstring \<Rightarrow> jsval" where
  "opt_member (Some (JObj ms)) k = obj_get ms k"
| "opt_member v k = None"

text \<open>\<open>v.length\<close>: arrays and strings have one of their own.\<close>

fun js_length :: "jsval \<Rightarrow> js_error + jsval" where
  "js_length None = Inl TypeError"
| "js_length (Some JNull) = Inl TypeError"
| "js_length (Some (JArr xs)) = Inr (Some (JNum (of_nat (length xs))))"
| "js_length (Some (JStr s)) = Inr (Some (JNum (of_nat (length s))))"
| "js_length (Some (JObj ms)) = Inr (obj_get ms (js ''length''))"
| "js_length (Some v) = Inr None"

section \<open>Platform functions\<close>

subsection \<open>\<open>JSON.parse\<close>\<close>

definition is_ws :: "nat \<Rightarrow> bool" where
  "is_ws c = (c = 32 \<or> c = 9 \<or> c = 10 \<or> c = 13)"

definition skip_ws :: "jstring \<Rightarrow> jstring" where
  "skip_ws cs = dropWhile is_ws cs"

definition is_digit :: "nat \<Rightarrow> bool" where
  "is_digit c = (48 \<le> c \<and> c \<le> 57)"

definition digits_val :: "jstring \<Rightarrow> nat" where
  "digits_val ds = foldl (\<lambda>acc c. 10 * acc + (c - 48)) 0 ds"

definition hex_val :: "nat \<Rightarrow> nat option" where
  "hex_val c =
     (if 48 \<le> c \<and> c \<le> 57 then Some (c - 48)
      else if 65 \<le> c \<and> c \<le> 70 then Some (c - 55)
      else if 97 \<le> c \<and> c \<le> 102 then Some (c - 87)
      else None)"

definition simple_escape :: "nat \<Rightarrow> nat option" where
  "simple_escape e =
     (if e = 34 then Some 34
      else if e = 92 then Some 92
      else if e = 47 then Some 47
      else if e = 98 then Some 8
      else if e = 102 then Some 12
      else if e = 110 then Some 10
      else if e = 114 then Some 13
      else if e = 116 then Some 9
      else None)"

definition cons_unit :: "nat \<Rightarrow> (jstring \<times> jstring) option \<Rightarrow> (jstring \<times> jstring) option" where
  "cons_unit c r = (case r of None \<Rightarrow> None | Some (s, rest) \<Rightarrow> Some (c # s, rest))"

text \<open>
  The characters of a string after its opening quote, up to the closing one: the
  string's code units and the text that follows. Code 34 is the quote, 92 the
  backslash, 117 the letter u.
\<close>

fun parse_chars :: "jstring \<Rightarrow> (jstring \<times> jstring) option" where
  "parse_chars [] = None"
| "parse_chars (c # cs) =
     (if c = 34 then Some ([], cs)
      else if c = 92 then
        (case cs of
           [] \<Rightarrow> None
         | e # cs' \<Rightarrow>
             if e = 117 then
               (case cs' of
                  h1 # h2 # h3 # h4 # rest \<Rightarrow>
                    (case (hex_val h1, hex_val h2, hex_val h3, hex_val h4) of
                       (Some a, Some b, Some c', Some d) \<Rightarrow>
                         cons_unit (((a * 16 + b) * 16 + c') * 16 + d) (parse_chars rest)
                     | _ \<Rightarrow> None)
                | _ \<Rightarrow> None)
             else
               (case simple_escape e of
                  None \<Rightarrow> None
                | Some x \<Rightarrow> cons_unit x (parse_chars cs')))
      else if c < 32 then None
      else cons_unit c (parse_chars cs))"

text \<open>
  A number: an optional minus, an integer part without a leading zero, an optional
  fraction and an optional exponent. Codes: 45 minus, 43 plus, 46 the point, 48 zero,
  101 and 69 the letters e and E.
\<close>

definition parse_exponent :: "jstring \<Rightarrow> (int \<times> jstring) option" where
  "parse_exponent cs =
     (case cs of
        [] \<Rightarrow> Some (0, cs)
      | c # r \<Rightarrow>
          if c = 101 \<or> c = 69 then
            (let (neg, r1) = (case r of
                                [] \<Rightarrow> (False, r)
                              | s # r' \<Rightarrow> if s = 45 then (True, r')
                                          else if s = 43 then (False, r') else (False, r));
                 ds = takeWhile is_digit r1
             in if ds = [] then None
                else Some ((if neg then - int (digits_val ds) else int (digits_val ds)),
                           dropWhile is_digit r1))
          else Some (0, cs))"

definition parse_fraction :: "jstring \<Rightarrow> (rat \<times> jstring) option" where
  "parse_fraction cs =
     (case cs of
        [] \<Rightarrow> Some (0, cs)
      | c # r \<Rightarrow>
          if c = 46 then
            (let ds = takeWhile is_digit r
             in if ds = [] then None
                else Some (of_nat (digits_val ds) / 10 ^ length ds, dropWhile is_digit r))
          else Some (0, cs))"

definition parse_int_part :: "jstring \<Rightarrow> (nat \<times> jstring) option" where
  "parse_int_part cs =
     (case cs of
        [] \<Rightarrow> None
      | c # r \<Rightarrow>
          if c = 48 then Some (0, r)
          else if is_digit c then
            Some (digits_val (takeWhile is_digit cs), dropWhile is_digit cs)
          else None)"

definition scale10 :: "rat \<Rightarrow> int \<Rightarrow> rat" where
  "scale10 q e = (if 0 \<le> e then q * 10 ^ nat e else q / 10 ^ nat (- e))"

definition parse_number :: "jstring \<Rightarrow> (rat \<times> jstring) option" where
  "parse_number cs =
     (let (neg, r0) = (case cs of [] \<Rightarrow> (False, cs)
                       | c # r \<Rightarrow> if c = 45 then (True, r) else (False, cs))
      in case parse_int_part r0 of
           None \<Rightarrow> None
         | Some (ip, r1) \<Rightarrow>
             (case parse_fraction r1 of
                None \<Rightarrow> None
              | Some (fp, r2) \<Rightarrow>
                  (case parse_exponent r2 of
                     None \<Rightarrow> None
                   | Some (ex, r3) \<Rightarrow>
                       Some (scale10 ((if neg then - 1 else 1) * (of_nat ip + fp)) ex, r3))))"

definition parse_literal :: "jstring \<Rightarrow> json \<Rightarrow> jstring \<Rightarrow> (json \<times> jstring) option" where
  "parse_literal word v cs =
     (if take (length word) cs = word then Some (v, drop (length word) cs) else None)"

text \<open>
  Recursive descent over the text, with fuel for the nesting: every call spends one
  unit. Codes: 123 and 125 the braces, 91 and 93 the brackets, 44 the comma, 58 the
  colon, 116, 102 and 110 the first letters of \<open>true\<close>, \<open>false\<close> and \<open>null\<close>.
\<close>

fun parse_value :: "nat \<Rightarrow> jstring \<Rightarrow> (json \<times> jstring) option"
  and parse_elements :: "nat \<Rightarrow> jstring \<Rightarrow> (json list \<times> jstring) option"
  and parse_members :: "nat \<Rightarrow> jstring \<Rightarrow> ((jstring \<times> json) list \<times> jstring) option"
where
  "parse_value 0 cs = None"
| "parse_value (Suc n) cs =
     (case skip_ws cs of
        [] \<Rightarrow> None
      | c # r \<Rightarrow>
          if c = 123 then
            (case skip_ws r of
               [] \<Rightarrow> None
             | d # r' \<Rightarrow>
                 if d = 125 then Some (JObj [], r')
                 else (case parse_members n (d # r') of
                         None \<Rightarrow> None
                       | Some (ms, r'') \<Rightarrow> Some (JObj ms, r'')))
          else if c = 91 then
            (case skip_ws r of
               [] \<Rightarrow> None
             | d # r' \<Rightarrow>
                 if d = 93 then Some (JArr [], r')
                 else (case parse_elements n (d # r') of
                         None \<Rightarrow> None
                       | Some (vs, r'') \<Rightarrow> Some (JArr vs, r'')))
          else if c = 34 then
            (case parse_chars r of
               None \<Rightarrow> None
             | Some (s, r') \<Rightarrow> Some (JStr s, r'))
          else if c = 116 then parse_literal (js ''true'') (JBool True) (c # r)
          else if c = 102 then parse_literal (js ''false'') (JBool False) (c # r)
          else if c = 110 then parse_literal (js ''null'') JNull (c # r)
          else if c = 45 \<or> is_digit c then
            (case parse_number (c # r) of
               None \<Rightarrow> None
             | Some (q, r') \<Rightarrow> Some (JNum q, r'))
          else None)"
| "parse_elements 0 cs = None"
| "parse_elements (Suc n) cs =
     (case parse_value n cs of
        None \<Rightarrow> None
      | Some (v, r) \<Rightarrow>
          (case skip_ws r of
             [] \<Rightarrow> None
           | d # r' \<Rightarrow>
               if d = 93 then Some ([v], r')
               else if d = 44 then
                 (case parse_elements n r' of
                    None \<Rightarrow> None
                  | Some (vs, r'') \<Rightarrow> Some (v # vs, r''))
               else None))"
| "parse_members 0 cs = None"
| "parse_members (Suc n) cs =
     (case skip_ws cs of
        [] \<Rightarrow> None
      | q # r \<Rightarrow>
          if q = 34 then
            (case parse_chars r of
               None \<Rightarrow> None
             | Some (k, r1) \<Rightarrow>
                 (case skip_ws r1 of
                    [] \<Rightarrow> None
                  | col # r2 \<Rightarrow>
                      if col = 58 then
                        (case parse_value n r2 of
                           None \<Rightarrow> None
                         | Some (v, r3) \<Rightarrow>
                             (case skip_ws r3 of
                                [] \<Rightarrow> None
                              | d # r4 \<Rightarrow>
                                  if d = 125 then Some ([(k, v)], r4)
                                  else if d = 44 then
                                    (case parse_members n r4 of
                                       None \<Rightarrow> None
                                     | Some (ms, r5) \<Rightarrow> Some ((k, v) # ms, r5))
                                  else None))
                      else None))
          else None)"

text \<open>
  \<open>JSON.parse\<close>: one value, white space around it and nothing else. \<open>None\<close> is the
  \<open>SyntaxError\<close>. Twice the length of the text is fuel enough: a nested call is
  reached only after a character has been read, and costs two units at most
  (\<open>JSON_parse_fuel\<close> below).
\<close>

definition JSON_parse :: "jstring \<Rightarrow> json option" where
  "JSON_parse t =
     (case parse_value (2 * length t + 2) t of
        None \<Rightarrow> None
      | Some (v, r) \<Rightarrow> if skip_ws r = [] then Some v else None)"

subsection \<open>\<open>parseInt(s, 10)\<close>\<close>

text \<open>
  White space and line terminators are skipped, then a sign and the longest run of
  decimal digits are read; with no digit the result is \<open>NaN\<close>. \<open>Num n\<close> stands for
  the double nearest to \<open>n\<close>, which is \<open>n\<close> itself up to \<open>2 ^ 53\<close>.
\<close>

definition is_str_ws :: "nat \<Rightarrow> bool" where
  "is_str_ws c =
     (c = 9 \<or> c = 10 \<or> c = 11 \<or> c = 12 \<or> c = 13 \<or> c = 32 \<or> c = 160 \<or> c = 5760
      \<or> (8192 \<le> c \<and> c \<le> 8202) \<or> c = 8232 \<or> c = 8233 \<or> c = 8239 \<or> c = 8287
      \<or> c = 12288 \<or> c = 65279)"

definition parseInt10 :: "jstring \<Rightarrow> js_number" where
  "parseInt10 s =
     (let s1 = dropWhile is_str_ws s;
          (neg, s2) = (case s1 of
                         [] \<Rightarrow> (False, s1)
                       | c # r \<Rightarrow> if c = 45 then (True, r)
                                  else if c = 43 then (False, r) else (False, s1));
          ds = takeWhile is_digit s2
      in if ds = [] then NaN
         else Num (if neg then - int (digits_val ds) else int (digits_val ds)))"

subsection \<open>Numbers in template literals\<close>

fun show_nat :: "nat \<Rightarrow> jstring" where
  "show_nat n = (if n < 10 then [48 + n] else show_nat (n div 10) @ [48 + n mod 10])"

declare show_nat.simps [simp del]

subsection \<open>\<open>encodeURIComponent\<close>\<close>

text \<open>
  Letters, digits and \<open>- _ . ! ~ * ' ( )\<close> stay; every other character is replaced by
  the bytes of its UTF-8 encoding, each as a percent sign and two upper-case hex
  digits. A surrogate pair is one character; a surrogate that is not part of a pair
  makes the function throw \<open>URIError\<close> (\<open>None\<close>).
\<close>

definition unreserved :: "nat \<Rightarrow> bool" where
  "unreserved c =
     ((65 \<le> c \<and> c \<le> 90) \<or> (97 \<le> c \<and> c \<le> 122) \<or> (48 \<le> c \<and> c \<le> 57)
      \<or> c = 45 \<or> c = 95 \<or> c = 46 \<or> c = 33 \<or> c = 126 \<or> c = 42 \<or> c = 39
      \<or> c = 40 \<or> c = 41)"

definition hex_digit :: "nat \<Rightarrow> nat" where
  "hex_digit d = (if d < 10 then 48 + d else 55 + d)"

definition percent :: "nat \<Rightarrow> jstring" where
  "percent b = [37, hex_digit (b div 16), hex_digit (b mod 16)]"

definition utf8 :: "nat \<Rightarrow> nat list" where
  "utf8 cp =
     (if cp < 128 then [cp]
      else if cp < 2048 then [192 + cp div 64, 128 + cp mod 64]
      else if cp < 65536 then [224 + cp div 4096, 128 + (cp div 64) mod 64, 128 + cp mod 64]
      else [240 + cp div 262144, 128 + (cp div 4096) mod 64, 128 + (cp div 64) mod 64,
            128 + cp mod 64])"

definition escape :: "nat \<Rightarrow> jstring option \<Rightarrow> jstring option" where
  "escape cp r = (case r of None \<Rightarrow> None | Some s \<Rightarrow> Some (concat (map percent (utf8 cp)) @ s))"

fun encodeURIComponent :: "jstring \<Rightarrow> jstring option" where
  "encodeURIComponent [] = Some []"
| "encodeURIComponent (c # cs) =
     (if unreserved c then
        (case encodeURIComponent cs of None \<Rightarrow> None | Some s \<Rightarrow> Some (c # s))
      else if 56320 \<le> c \<and> c \<le> 57343 then None
      else if 55296 \<le> c \<and> c \<le> 56319 then
        (case cs of
           [] \<Rightarrow> None
         | d # cs' \<Rightarrow>
             if 56320 \<le> d \<and> d \<le> 57343
             then escape ((c - 55296) * 1024 + (d - 56320) + 65536) (encodeURIComponent cs')
             else None)
      else escape c (encodeURIComponent cs))"

subsection \<open>\<open>Map\<close>, object spread and \<open>Headers.get\<close>\<close>

text \<open>
  A \<open>Map\<close> and a plain object used as a record are lists of key and value pairs with
  distinct keys, in insertion order. \<open>set\<close> overwrites in place or appends,
  \<open>delete\<close> removes, \<open>get\<close> gives \<open>undefined\<close> (\<open>None\<close>) for a key that is not there.
\<close>

fun map_set :: "('k \<times> 'v) list \<Rightarrow> 'k \<Rightarrow> 'v \<Rightarrow> ('k \<times> 'v) list" where
  "map_set [] k v = [(k, v)]"
| "map_set ((k', v') # r) k v = (if k' = k then (k, v) # r else (k', v') # map_set r k v)"

definition map_delete :: "('k \<times> 'v) list \<Rightarrow> 'k \<Rightarrow> ('k \<times> 'v) list" where
  "map_delete m k = filter (\<lambda>(k', v). k' \<noteq> k) m"

definition map_get :: "('k \<times> 'v) list \<Rightarrow> 'k \<Rightarrow> 'v option" where
  "map_get m k = map_of m k"

text \<open>
  \<open>{...a, ...b}\<close> keeps the names of \<open>a\<close> in place, takes the value of \<open>b\<close> where
  both have a name, and appends the names only \<open>b\<close> has.
\<close>

definition spread :: "(jstring \<times> jstring) list \<Rightarrow> (jstring \<times> jstring) list \<Rightarrow> (jstring \<times> jstring) list" where
  "spread a b = foldl (\<lambda>acc (k, v). map_set acc k v) a b"

definition ascii_lower :: "nat \<Rightarrow> nat" where
  "ascii_lower c = (if 65 \<le> c \<and> c \<le> 90 then c + 32 else c)"

fun join_values :: "jstring list \<Rightarrow> jstring" where
  "join_values [] = []"
| "join_values [v] = v"
| "join_values (v # vs) = v @ js '', '' @ join_values vs"

text \<open>
  \<open>headers.get(name)\<close> of a response: names match without regard to ASCII case, the
  values of a repeated header are joined with a comma and a space, and a header that
  is not there gives \<open>null\<close> (\<open>None\<close>).
\<close>

definition headers_get :: "(jstring \<times> jstring) list \<Rightarrow> jstring \<Rightarrow> jstring option" where
  "headers_get hs name =
     (let vs = map snd (filter (\<lambda>(k, v). map ascii_lower k = map ascii_lower name) hs)
      in if vs = [] then None else Some (join_values vs))"

section \<open>The network\<close>

text \<open>
  A request URL is a string. The data plane's URL is the template
  \<open>https://${host}${endpoint}\<close>, whose \<open>host\<close> comes out of a parsed response: for a
  string it is the concatenation, and for any other value, whose conversion to a
  string is the platform's, the URL keeps the value and the endpoint as they are.
\<close>

datatype url = Url jstring | HostUrl jsval jstring

record 'b http_request =
  req_url :: url
  req_method :: "jstring option"
  req_body :: "'b option"
  req_headers :: "(jstring \<times> jstring) list"

text \<open>
  A response: its status, its headers, and the text that \<open>response.text()\<close> resolves
  to.
\<close>

record http_response =
  status :: nat
  resp_headers :: "(jstring \<times> jstring) list"
  resp_text :: jstring

datatype fetch_result = Rejected | Response http_response

text \<open>
  The world outside the client: a server that answers each request from its own
  state, or lets \<open>fetch\<close> reject. The network keeps the server's state and the
  requests handed to \<open>fetch\<close>, oldest first; each is one round trip attempted.
\<close>

type_synonym ('b, 'w) server = "'w \<Rightarrow> 'b http_request \<Rightarrow> fetch_result \<times> 'w"

record ('b, 'w) net =
  server_state :: 'w
  sent :: "'b http_request list"

definition fetch :: "('b, 'w) server \<Rightarrow> ('b, 'w) net \<Rightarrow> 'b http_request \<Rightarrow> fetch_result \<times> ('b, 'w) net" where
  "fetch srv n rq =
     (case srv (server_state n) rq of
        (r, w) \<Rightarrow> (r, \<lparr>server_state = w, sent = sent n @ [rq]\<rparr>))"

text \<open>The \<open>RequestInit\<close> fields the client sets or reads.\<close>

record 'b request_init =
  init_method :: "jstring option"
  init_body :: "'b option"
  init_headers :: "(jstring \<times> jstring) list option"

definition no_options :: "'b request_init" where
  "no_options = \<lparr>init_method = None, init_body = None, init_headers = None\<rparr>"

section \<open>The client (\<open>client.ts\<close>)\<close>

definition CONTROL_PLANE_URL :: jstring where
  "CONTROL_PLANE_URL = js ''https://api.pinecone.io''"

definition API_VERSION :: jstring where
  "API_VERSION = js ''2025-01''"

text \<open>
  \<open>PineconeClientImpl\<close>: the credentials, of which only \<open>apiKey\<close> is read, and the
  \<open>indexHostCache\<close>. The type of the credentials is declared in \<open>types/env\<close>, which
  is not part of the sources at hand; \<open>apiKey\<close> is taken to be a string or
  \<open>undefined\<close>. The cache is declared \<open>Map<string, string>\<close>, and holds whatever
  \<open>index.host\<close> was when it was stored.
\<close>

record client =
  apiKey :: "jstring option"
  indexHostCache :: "(jstring \<times> jsval) list"

definition new_client :: "jstring option \<Rightarrow> client" where
  "new_client key = \<lparr>apiKey = key, indexHostCache = []\<rparr>"

definition getAuthHeaders :: "client \<Rightarrow> js_error + (jstring \<times> jstring) list" where
  "getAuthHeaders c =
     (case apiKey c of
        None \<Rightarrow> Inl (AuthenticationError (js ''No API key provided. Include X-Pinecone-Api-Key header.''))
      | Some k \<Rightarrow>
          if k = [] then
            Inl (AuthenticationError (js ''No API key provided. Include X-Pinecone-Api-Key header.''))
          else
            Inr [(js ''Api-Key'', k),
                 (js ''Content-Type'', js ''application/json''),
                 (js ''X-Pinecone-Api-Version'', API_VERSION)])"

text \<open>\<open>a || d\<close> where \<open>d\<close> is a value.\<close>

definition or_default :: "jsval \<Rightarrow> json \<Rightarrow> json" where
  "or_default a d = (case a of None \<Rightarrow> d | Some v \<Rightarrow> if truthy (Some v) then v else d)"

text \<open>
  The message of \<open>request\<close> for a response that is not ok: the default, replaced
  inside the \<open>try\<close> by \<open>errorJson.error?.message || errorJson.message || message\<close>.
  A body that does not parse, and the body \<open>null\<close>, on which the property read
  throws, leave the default.
\<close>

definition api_error_message :: "nat \<Rightarrow> jstring \<Rightarrow> json" where
  "api_error_message st errorBody =
     (let message = JStr (js ''API error: '' @ show_nat st)
      in case JSON_parse errorBody of
           None \<Rightarrow> message
         | Some errorJson \<Rightarrow>
             (case member (Some errorJson) (js ''error'') of
                Inl e \<Rightarrow> message
              | Inr err \<Rightarrow>
                  (case member (Some errorJson) (js ''message'') of
                     Inl e \<Rightarrow> message
                   | Inr m \<Rightarrow> or_default (opt_member err (js ''message'')) (or_default m message))))"

definition response_ok :: "http_response \<Rightarrow> bool" where
  "response_ok r = (200 \<le> status r \<and> status r \<le> 299)"

text \<open>What \<open>request\<close> does with the response of \<open>fetch\<close>, in the order of the source.\<close>

definition handle_response :: "http_response \<Rightarrow> js_error + jsval" where
  "handle_response r =
     (if status r = 429 then
        (let retryAfter = headers_get (resp_headers r) (js ''Retry-After'')
         in Inl (RateLimitError (js ''Rate limit exceeded'')
                   (case retryAfter of
                      None \<Rightarrow> Num 60
                    | Some v \<Rightarrow> if v \<noteq> [] then parseInt10 v else Num 60)))
      else if status r = 401 \<or> status r = 403 then
        Inl (AuthenticationError (js ''Authentication failed. Check your API key.''))
      else if \<not> response_ok r then
        Inl (PineconeApiError (api_error_message (status r) (resp_text r)) (status r))
      else if status r = 202 \<or> status r = 204 then Inr None
      else if resp_text r = [] then Inr None
      else (case JSON_parse (resp_text r) of
              None \<Rightarrow> Inl SyntaxError
            | Some v \<Rightarrow> Inr (Some v)))"

text \<open>
  The arguments of \<open>fetch\<close> in \<open>request\<close>: the URL, and the options with the
  headers replaced by \<open>{...this.getAuthHeaders(), ...(options.headers || {})}\<close>.
\<close>

definition fetch_args ::
  "(jstring \<times> jstring) list \<Rightarrow> url \<Rightarrow> 'b request_init \<Rightarrow> 'b http_request" where
  "fetch_args auth u options =
     \<lparr>req_url = u,
      req_method = init_method options,
      req_body = init_body options,
      req_headers = spread auth (case init_headers options of None \<Rightarrow> [] | Some h \<Rightarrow> h)\<rparr>"

text \<open>
  \<open>request\<close>: the headers are built first, so a missing key throws before \<open>fetch\<close>
  is called.
\<close>

definition request ::
  "('b, 'w) server \<Rightarrow> client \<Rightarrow> ('b, 'w) net \<Rightarrow> url \<Rightarrow> 'b request_init
     \<Rightarrow> (js_error + jsval) \<times> ('b, 'w) net" where
  "request srv c n u options =
     (case getAuthHeaders c of
        Inl e \<Rightarrow> (Inl e, n)
      | Inr auth \<Rightarrow>
          (case fetch srv n (fetch_args auth u options) of
             (Rejected, n') \<Rightarrow> (Inl FetchRejected, n')
           | (Response r, n') \<Rightarrow> (handle_response r, n')))"

definition controlPlaneRequest ::
  "('b, 'w) server \<Rightarrow> client \<Rightarrow> ('b, 'w) net \<Rightarrow> jstring \<Rightarrow> 'b request_init
     \<Rightarrow> (js_error + jsval) \<times> ('b, 'w) net" where
  "controlPlaneRequest srv c n endpoint options =
     request srv c n (Url (CONTROL_PLANE_URL @ endpoint)) options"

definition describeIndex ::
  "('b, 'w) server \<Rightarrow> client \<Rightarrow> ('b, 'w) net \<Rightarrow> jstring \<Rightarrow> (js_error + jsval) \<times> ('b, 'w) net" where
  "describeIndex srv c n indexName =
     (case encodeURIComponent indexName of
        None \<Rightarrow> (Inl URIError, n)
      | Some name \<Rightarrow> controlPlaneRequest srv c n (js ''/indexes/'' @ name) no_options)"

text \<open>\<open>listIndexes\<close>: \<open>response.indexes || []\<close>.\<close>

definition listIndexes ::
  "('b, 'w) server \<Rightarrow> client \<Rightarrow> ('b, 'w) net \<Rightarrow> (js_error + json) \<times> ('b, 'w) net" where
  "listIndexes srv c n =
     (case controlPlaneRequest srv c n (js ''/indexes'') no_options of
        (Inl e, n') \<Rightarrow> (Inl e, n')
      | (Inr response, n') \<Rightarrow>
          (case member response (js ''indexes'') of
             Inl e \<Rightarrow> (Inl e, n')
           | Inr v \<Rightarrow> (Inr (or_default v (JArr [])), n')))"

text \<open>
  \<open>this.indexHostCache.get(indexName)\<close>: the stored value, or \<open>undefined\<close> when
  there is no entry.
  \<open>getIndexHost\<close>: \<open>if (cached)\<close> is a test of truthiness. \<open>index.host\<close> is read
  when the entry is stored, and throws when \<open>describeIndex\<close> resolved to
  \<open>undefined\<close> or \<open>null\<close>.
\<close>

definition cache_get :: "client \<Rightarrow> jstring \<Rightarrow> jsval" where
  "cache_get c indexName =
     (case map_get (indexHostCache c) indexName of None \<Rightarrow> None | Some v \<Rightarrow> v)"

definition getIndexHost ::
  "('b, 'w) server \<Rightarrow> client \<Rightarrow> ('b, 'w) net \<Rightarrow> jstring
     \<Rightarrow> (js_error + jsval) \<times> client \<times> ('b, 'w) net" where
  "getIndexHost srv c n indexName =
     (let cached = cache_get c indexName
      in if truthy cached then (Inr cached, c, n)
         else
           (case describeIndex srv c n indexName of
              (Inl e, n') \<Rightarrow> (Inl e, c, n')
            | (Inr index, n') \<Rightarrow>
                (case member index (js ''host'') of
                   Inl e \<Rightarrow> (Inl e, c, n')
                 | Inr host \<Rightarrow>
                     (Inr host,
                      c\<lparr>indexHostCache := map_set (indexHostCache c) indexName host\<rparr>,
                      n'))))"

definition data_plane_url :: "jsval \<Rightarrow> jstring \<Rightarrow> url" where
  "data_plane_url host endpoint =
     (case host of
        Some (JStr h) \<Rightarrow> Url (js ''https://'' @ h @ endpoint)
      | _ \<Rightarrow> HostUrl host endpoint)"

definition dataPlaneRequest ::
  "('b, 'w) server \<Rightarrow> client \<Rightarrow> ('b, 'w) net \<Rightarrow> jstring \<Rightarrow> jstring \<Rightarrow> 'b request_init
     \<Rightarrow> (js_error + jsval) \<times> client \<times> ('b, 'w) net" where
  "dataPlaneRequest srv c n indexName endpoint options =
     (case getIndexHost srv c n indexName of
        (Inl e, c', n') \<Rightarrow> (Inl e, c', n')
      | (Inr host, c', n') \<Rightarrow>
          (case request srv c' n' (data_plane_url host endpoint) options of
             (r, n'') \<Rightarrow> (r, c', n'')))"

text \<open>\<open>deleteIndex\<close>: the cache entry goes once the request has not thrown.\<close>

definition deleteIndex ::
  "('b, 'w) server \<Rightarrow> client \<Rightarrow> ('b, 'w) net \<Rightarrow> jstring
     \<Rightarrow> (js_error + unit) \<times> client \<times> ('b, 'w) net" where
  "deleteIndex srv c n indexName =
     (case encodeURIComponent indexName of
        None \<Rightarrow> (Inl URIError, c, n)
      | Some name \<Rightarrow>
          (case controlPlaneRequest srv c n (js ''/indexes/'' @ name)
                  \<lparr>init_method = Some (js ''DELETE''), init_body = None, init_headers = None\<rparr> of
             (Inl e, n') \<Rightarrow> (Inl e, c, n')
           | (Inr v, n') \<Rightarrow>
               (Inr (), c\<lparr>indexHostCache := map_delete (indexHostCache c) indexName\<rparr>, n')))"

text \<open>
  \<open>utils/errors\<close> is not part of the sources at hand. What the code takes from it
  is a parameter: whether an error of the client is an instance of
  \<open>PineconeApiError\<close>, its \<open>retryable\<close> flag, its \<open>message\<close>, and
  \<open>formatErrorForLogging\<close>. An \<open>Error\<close> made by \<open>new Error(m)\<close> has the message
  \<open>m\<close> and is no instance of a class of its own.
\<close>

record 'd errors_module =
  instanceof_PineconeApiError :: "js_error \<Rightarrow> bool"
  retryable :: "js_error \<Rightarrow> bool"
  message_of :: "js_error \<Rightarrow> jstring"
  formatErrorForLogging :: "js_error \<Rightarrow> 'd"

fun error_message :: "'d errors_module \<Rightarrow> js_error \<Rightarrow> jstring" where
  "error_message E (Error m) = m"
| "error_message E e = message_of E e"

text \<open>
  \<open>testConnection\<close> catches what \<open>listIndexes\<close> throws, and so never throws
  itself; everything thrown here is an \<open>Error\<close>, whose message it reports.
\<close>

record connection =
  connected :: bool
  message :: jstring

definition testConnection ::
  "'d errors_module \<Rightarrow> ('b, 'w) server \<Rightarrow> client \<Rightarrow> ('b, 'w) net
     \<Rightarrow> (js_error + connection) \<times> ('b, 'w) net" where
  "testConnection E srv c n =
     (case listIndexes srv c n of
        (Inl e, n') \<Rightarrow> (Inr \<lparr>connected = False, message = error_message E e\<rparr>, n')
      | (Inr v, n') \<Rightarrow>
          (Inr \<lparr>connected = True, message = js ''Successfully connected to Pinecone''\<rparr>, n'))"

text \<open>
  \<open>queryVectors\<close>: the body is \<open>JSON.stringify(request)\<close>, kept here as the request
  it serialises.
\<close>

record query_request =
  q_vector :: "rat list option"
  q_id :: "jstring option"
  q_topK :: int
  q_namespace :: "jstring option"
  q_filter :: "json option"
  q_includeValues :: bool
  q_includeMetadata :: bool

datatype 'a serialized = JSON_stringify 'a

definition queryVectors ::
  "(query_request serialized, 'w) server \<Rightarrow> client \<Rightarrow> (query_request serialized, 'w) net
     \<Rightarrow> jstring \<Rightarrow> query_request
     \<Rightarrow> (js_error + jsval) \<times> client \<times> (query_request serialized, 'w) net" where
  "queryVectors srv c n indexName rq =
     dataPlaneRequest srv c n indexName (js ''/query'')
       \<lparr>init_method = Some (js ''POST''),
        init_body = Some (JSON_stringify rq),
        init_headers = None\<rparr>"

section \<open>The query tool (\<open>utils/formatters.ts\<close>, \<open>pinecone_query_vectors\<close>)\<close>

text \<open>
  A tool response is the object whose serialisation is the response's text: for
  \<open>formatError\<close> the \<open>error\<close> line and the \<open>details\<close>, with \<open>isError\<close> set; for
  \<open>formatResponse\<close> the data.
\<close>

datatype ('d, 'p) tool_response = ErrorResult jstring 'd | DataResult 'p

fun formatError :: "'d errors_module \<Rightarrow> js_error \<Rightarrow> ('d, 'p) tool_response" where
  "formatError E (Error m) = ErrorResult (js ''Error: '' @ m) (formatErrorForLogging E (Error m))"
| "formatError E e =
     ErrorResult
       (if instanceof_PineconeApiError E e then
          js ''Error: '' @ error_message E e @ (if retryable E e then js '' (retryable)'' else [])
        else js ''Error: '' @ error_message E e)
       (formatErrorForLogging E e)"

definition formatResponse :: "'p \<Rightarrow> ('d, 'p) tool_response" where
  "formatResponse p = DataResult p"

record query_payload =
  matches :: jsval
  namespace :: jsval
  matchCount :: jsval
  usage :: jsval

text \<open>
  The object given to \<open>formatResponse\<close>, its fields read in the order written;
  a read from \<open>undefined\<close> or \<open>null\<close> throws into the handler's \<open>catch\<close>.
\<close>

definition query_result_payload :: "jsval \<Rightarrow> js_error + query_payload" where
  "query_result_payload result =
     (case member result (js ''matches'') of
        Inl e \<Rightarrow> Inl e
      | Inr m \<Rightarrow>
          (case member result (js ''namespace'') of
             Inl e \<Rightarrow> Inl e
           | Inr ns \<Rightarrow>
               (case js_length m of
                  Inl e \<Rightarrow> Inl e
                | Inr cnt \<Rightarrow>
                    (case member result (js ''usage'') of
                       Inl e \<Rightarrow> Inl e
                     | Inr u \<Rightarrow>
                         Inr \<lparr>matches = m, namespace = ns, matchCount = cnt, usage = u\<rparr>))))"

text \<open>
  The handler of \<open>pinecone_query_vectors\<close>. \<open>vector\<close> is an array or \<open>undefined\<close>,
  and an array is truthy; \<open>id\<close> is a string or \<open>undefined\<close>.
\<close>

definition pinecone_query_vectors ::
  "'d errors_module \<Rightarrow> (query_request serialized, 'w) server \<Rightarrow> client
     \<Rightarrow> (query_request serialized, 'w) net \<Rightarrow> jstring \<Rightarrow> query_request
     \<Rightarrow> ('d, query_payload) tool_response \<times> client \<times> (query_request serialized, 'w) net" where
  "pinecone_query_vectors E srv c n indexName rq =
     (if q_vector rq = None \<and> \<not> truthy_string (q_id rq) then
        (formatError E (Error (js ''Must provide either vector or id'')), c, n)
      else
        (case queryVectors srv c n indexName rq of
           (Inl e, c', n') \<Rightarrow> (formatError E e, c', n')
         | (Inr result, c', n') \<Rightarrow>
             (case query_result_payload result of
                Inl e \<Rightarrow> (formatError E e, c', n')
              | Inr p \<Rightarrow> (formatResponse p, c', n'))))"

section \<open>Notions of the specification\<close>

text \<open>
  The integer a string of decimal digits denotes, by position.
\<close>

definition integer_value :: "jstring \<Rightarrow> nat" where
  "integer_value v = (\<Sum>i<length v. (v ! i - 48) * 10 ^ (length v - Suc i))"

text \<open>The field of a parsed body at a path of names, if the body has it.\<close>

fun field_at :: "jstring list \<Rightarrow> json \<Rightarrow> jsval" where
  "field_at [] j = Some j"
| "field_at (k # ks) (JObj ms) = (case obj_get ms k of None \<Rightarrow> None | Some v \<Rightarrow> field_at ks v)"
| "field_at (k # ks) j = None"

text \<open>
  The message of an \<open>ApiError\<close> as the specification words it: the nested
  \<open>error.message\<close> field first, then the top-level \<open>message\<close> field, and
  \<open>API error: {status}\<close> when the body does not parse or neither field is present.
\<close>

definition message_by_presence :: "nat \<Rightarrow> jstring \<Rightarrow> json" where
  "message_by_presence st body =
     (case JSON_parse body of
        None \<Rightarrow> JStr (js ''API error: '' @ show_nat st)
      | Some j \<Rightarrow>
          (case field_at [js ''error'', js ''message''] j of
             Some m \<Rightarrow> m
           | None \<Rightarrow>
               (case field_at [js ''message''] j of
                  Some m \<Rightarrow> m
                | None \<Rightarrow> JStr (js ''API error: '' @ show_nat st))))"

text \<open>
  The same with a field counted only when its value is truthy: a field that is
  \<open>null\<close>, \<open>false\<close>, zero or the empty string is passed over.
\<close>

definition truthy_field :: "jstring list \<Rightarrow> json \<Rightarrow> jsval" where
  "truthy_field p j = (if truthy (field_at p j) then field_at p j else None)"

definition message_by_truthiness :: "nat \<Rightarrow> jstring \<Rightarrow> json" where
  "message_by_truthiness st body =
     (case JSON_parse body of
        None \<Rightarrow> JStr (js ''API error: '' @ show_nat st)
      | Some j \<Rightarrow>
          (case truthy_field [js ''error'', js ''message''] j of
             Some m \<Rightarrow> m
           | None \<Rightarrow>
               (case truthy_field [js ''message''] j of
                  Some m \<Rightarrow> m
                | None \<Rightarrow> JStr (js ''API error: '' @ show_nat st))))"

text \<open>
  The request of the describe call for an index whose encoded name is \<open>name\<close>: one
  resolution round trip.
\<close>

definition describe_request :: "(jstring \<times> jstring) list \<Rightarrow> jstring \<Rightarrow> 'b http_request" where
  "describe_request auth name =
     fetch_args auth (Url (CONTROL_PLANE_URL @ js ''/indexes/'' @ name)) no_options"

text \<open>
  The calls that reach the network or the cache: every operation of the client is a
  control-plane request or a data-plane request with an endpoint and options of its
  own, and \<open>deleteIndex\<close> evicts besides. A session is a list of calls made one
  after the other on the same client.
\<close>

datatype 'b call =
    DataPlaneCall jstring jstring "'b request_init"
  | ControlPlaneCall jstring "'b request_init"
  | DeleteIndexCall jstring

fun perform ::
  "('b, 'w) server \<Rightarrow> client \<times> ('b, 'w) net \<Rightarrow> 'b call \<Rightarrow> client \<times> ('b, 'w) net" where
  "perform srv (c, n) (DataPlaneCall k endpoint options) =
     (case dataPlaneRequest srv c n k endpoint options of (r, c', n') \<Rightarrow> (c', n'))"
| "perform srv (c, n) (ControlPlaneCall endpoint options) =
     (case controlPlaneRequest srv c n endpoint options of (r, n') \<Rightarrow> (c, n'))"
| "perform srv (c, n) (DeleteIndexCall k) =
     (case deleteIndex srv c n k of (r, c', n') \<Rightarrow> (c', n'))"

definition session ::
  "('b, 'w) server \<Rightarrow> client \<times> ('b, 'w) net \<Rightarrow> 'b call list \<Rightarrow> client \<times> ('b, 'w) net" where
  "session srv s calls = foldl (perform srv) s calls"

text \<open>The error of \<open>getAuthHeaders\<close>, and the three headers it returns for a key.\<close>

definition no_key_error :: js_error where
  "no_key_error =
     AuthenticationError (js ''No API key provided. Include X-Pinecone-Api-Key header.'')"

definition facade_headers :: "jstring \<Rightarrow> (jstring \<times> jstring) list" where
  "facade_headers key =
     [(js ''Api-Key'', key),
      (js ''Content-Type'', js ''application/json''),
      (js ''X-Pinecone-Api-Version'', js ''2025-01'')]"

section \<open>Example worlds\<close>

text \<open>
  A server that answers the requests it receives with the responses of a script, in
  order, and lets \<open>fetch\<close> reject once the script is over.
\<close>

fun scripted :: "('b, fetch_result list) server" where
  "scripted [] rq = (Rejected, [])"
| "scripted (r # rs) rq = (r, rs)"

definition answering :: "fetch_result list \<Rightarrow> ('b, fetch_result list) net" where
  "answering rs = \<lparr>server_state = rs, sent = []\<rparr>"

definition reply :: "nat \<Rightarrow> (jstring \<times> jstring) list \<Rightarrow> jstring \<Rightarrow> fetch_result" where
  "reply st hs body = Response \<lparr>status = st, resp_headers = hs, resp_text = body\<rparr>"

definition keyed_client :: client where
  "keyed_client = new_client (Some (js ''secret''))"

definition keyed_headers :: "(jstring \<times> jstring) list" where
  "keyed_headers =
     [(js ''Api-Key'', js ''secret''),
      (js ''Content-Type'', js ''application/json''),
      (js ''X-Pinecone-Api-Version'', js ''2025-01'')]"

text \<open>
  An errors module for the examples: the three classes keep the message they are
  constructed with, only \<open>PineconeApiError\<close> counts as an instance of itself, only
  \<open>RateLimitError\<close> is retryable, and the logged details are the error.
\<close>

definition example_errors :: "js_error errors_module" where
  "example_errors =
     \<lparr>instanceof_PineconeApiError = (\<lambda>e. case e of PineconeApiError m st \<Rightarrow> True | _ \<Rightarrow> False),
      retryable = (\<lambda>e. case e of RateLimitError m d \<Rightarrow> True | _ \<Rightarrow> False),
      message_of = (\<lambda>e. case e of
                          AuthenticationError m \<Rightarrow> m
                        | RateLimitError m d \<Rightarrow> m
                        | PineconeApiError (JStr m) st \<Rightarrow> m
                        | _ \<Rightarrow> []),
      formatErrorForLogging = (\<lambda>e. e)\<rparr>"

definition empty_host_body :: jstring where
  \<open>empty_host_body = js ''{"host":""}''\<close>

definition host_body :: jstring where
  \<open>host_body = js ''{"name":"idx","host":"idx-1.svc.pinecone.io"}''\<close>

definition matches_body :: jstring where
  \<open>matches_body = js ''{"matches":[],"namespace":""}''\<close>

text \<open>
  Two data-plane calls in a row for the index \<open>idx\<close>, on a server that describes
  the index with an empty host.
\<close>

definition empty_host_first ::
  "(js_error + jsval) \<times> client \<times> (unit, fetch_result list) net" where
  "empty_host_first =
     dataPlaneRequest scripted keyed_client
       (answering [reply 200 [] empty_host_body, reply 200 [] matches_body,
                   reply 200 [] empty_host_body, reply 200 [] matches_body])
       (js ''idx'') (js ''/describe_index_stats'') no_options"

definition empty_host_second ::
  "(js_error + jsval) \<times> client \<times> (unit, fetch_result list) net" where
  "empty_host_second =
     dataPlaneRequest scripted (fst (snd empty_host_first)) (snd (snd empty_host_first))
       (js ''idx'') (js ''/describe_index_stats'') no_options"

text \<open>A query that supplies both a vector and an id, and one that supplies neither.\<close>

definition query_with_both :: query_request where
  "query_with_both =
     \<lparr>q_vector = Some [1, 0], q_id = Some (js ''v1''), q_topK = 3, q_namespace = None,
      q_filter = None, q_includeValues = False, q_includeMetadata = True\<rparr>"

definition query_with_neither :: query_request where
  "query_with_neither =
     \<lparr>q_vector = None, q_id = None, q_topK = 3, q_namespace = None,
      q_filter = None, q_includeValues = False, q_includeMetadata = True\<rparr>"

text \<open>
  The same calls on a server that describes the index with a host, then a
  \<open>deleteIndex\<close> and one more data-plane call.
\<close>

definition resolved_first ::
  "(js_error + jsval) \<times> client \<times> (unit, fetch_result list) net" where
  "resolved_first =
     dataPlaneRequest scripted keyed_client
       (answering [reply 200 [] host_body, reply 200 [] matches_body,
                   reply 200 [] matches_body, reply 202 [] [],
                   reply 200 [] host_body, reply 200 [] matches_body])
       (js ''idx'') (js ''/describe_index_stats'') no_options"

definition resolved_second ::
  "(js_error + jsval) \<times> client \<times> (unit, fetch_result list) net" where
  "resolved_second =
     dataPlaneRequest scripted (fst (snd resolved_first)) (snd (snd resolved_first))
       (js ''idx'') (js ''/describe_index_stats'') no_options"

definition resolved_deleted ::
  "(js_error + unit) \<times> client \<times> (unit, fetch_result list) net" where
  "resolved_deleted =
     deleteIndex scripted (fst (snd resolved_second)) (snd (snd resolved_second)) (js ''idx'')"

definition resolved_after_delete ::
  "(js_error + jsval) \<times> client \<times> (unit, fetch_result list) net" where
  "resolved_after_delete =
     dataPlaneRequest scripted (fst (snd resolved_deleted)) (snd (snd resolved_deleted))
       (js ''idx'') (js ''/describe_index_stats'') no_options"

text \<open>The parsed description, and the data-plane request of these examples.\<close>

definition host_index :: json where
  "host_index = JObj [(js ''name'', JStr (js ''idx'')), (js ''host'', JStr (js ''idx-1.svc.pinecone.io''))]"

definition stats_request :: "jstring \<Rightarrow> unit http_request" where
  "stats_request host =
     fetch_args keyed_headers (Url (js ''https://'' @ host @ js ''/describe_index_stats'')) no_options"

text \<open>A client that has the host of \<open>idx\<close> in its cache, and the query it sends.\<close>

definition cached_client :: client where
  "cached_client =
     \<lparr>apiKey = Some (js ''secret''),
      indexHostCache = [(js ''idx'', Some (JStr (js ''idx-1.svc.pinecone.io'')))]\<rparr>"

definition query_request_sent :: "query_request \<Rightarrow> query_request serialized http_request" where
  "query_request_sent rq =
     fetch_args keyed_headers (Url (js ''https://idx-1.svc.pinecone.io/query''))
       \<lparr>init_method = Some (js ''POST''), init_body = Some (JSON_stringify rq),
        init_headers = None\<rparr>"

definition boom_body :: jstring where
  \<open>boom_body = js ''{"error":{"message":"boom"}}''\<close>

definition empty_message_body :: jstring where
  \<open>empty_message_body = js ''{"message":""}''\<close>

section \<open>The fuel of the parser\<close>

text \<open>Each parser leaves less text than it was given.\<close>

lemma skip_ws_length: "length (skip_ws cs) \<le> length cs"
  by (simp add: skip_ws_def length_dropWhile_le)

lemma cons_unit_Some:
  "cons_unit c x = Some (s, r) \<Longrightarrow> \<exists>s'. x = Some (s', r)"
  by (auto simp add: cons_unit_def split: option.splits)

lemma parse_chars_shorter: "parse_chars cs = Some (s, r) \<Longrightarrow> length r < length cs"
proof (induction cs arbitrary: s r rule: length_induct)
  case (1 cs)
  have IH: "length ys < length cs \<longrightarrow> length r' < length ys" if "parse_chars ys = Some (s', r')"
    for ys s' r'
    using "1.IH" that by blast
  show ?case
  proof (cases cs)
    case Nil
    with "1.prems" show ?thesis by simp
  next
    case (Cons c cs0)
    with "1.prems" show ?thesis
      by (auto split: if_splits list.splits option.splits dest!: cons_unit_Some IH)
  qed
qed

lemma parse_literal_shorter:
  "parse_literal word v cs = Some (x, r) \<Longrightarrow> word \<noteq> [] \<Longrightarrow> length r < length cs"
  by (cases cs) (auto simp add: parse_literal_def split: if_splits)

lemma parse_int_part_shorter: "parse_int_part cs = Some (x, r) \<Longrightarrow> length r < length cs"
  by (cases cs)
     (auto simp add: parse_int_part_def le_imp_less_Suc length_dropWhile_le split: if_splits)

lemma parse_fraction_length: "parse_fraction cs = Some (x, r) \<Longrightarrow> length r \<le> length cs"
  by (cases cs)
     (auto simp add: parse_fraction_def Let_def le_SucI length_dropWhile_le split: if_splits)

lemma parse_exponent_length: "parse_exponent cs = Some (x, r) \<Longrightarrow> length r \<le> length cs"
proof (cases cs)
  case Nil
  then show "parse_exponent cs = Some (x, r) \<Longrightarrow> length r \<le> length cs"
    by (simp add: parse_exponent_def)
next
  case (Cons c r0)
  assume p: "parse_exponent cs = Some (x, r)"
  show "length r \<le> length cs"
  proof (cases "c = 101 \<or> c = 69")
    case False
    with p Cons show ?thesis by (auto simp add: parse_exponent_def)
  next
    case True
    define r1 where "r1 = snd (case r0 of
                                [] \<Rightarrow> (False, r0)
                              | s # r' \<Rightarrow> if s = 45 then (True, r')
                                          else if s = 43 then (False, r') else (False, r0))"
    have r1: "length r1 \<le> length r0"
      by (cases r0) (auto simp add: r1_def)
    from p Cons True have "r = dropWhile is_digit r1"
      by (auto simp add: parse_exponent_def Let_def r1_def split: prod.splits if_splits)
    with r1 Cons show ?thesis
      using length_dropWhile_le [of is_digit r1] by simp
  qed
qed

lemma parse_number_shorter: "parse_number cs = Some (q, r) \<Longrightarrow> length r < length cs"
proof -
  assume p: "parse_number cs = Some (q, r)"
  define r0 where "r0 = snd (case cs of [] \<Rightarrow> (False, cs)
                       | c # r \<Rightarrow> if c = 45 then (True, r) else (False, cs))"
  have r0: "length r0 \<le> length cs"
    by (cases cs) (auto simp add: r0_def)
  from p obtain ip r1 fp r2 ex where a: "parse_int_part r0 = Some (ip, r1)"
    and b: "parse_fraction r1 = Some (fp, r2)" and c: "parse_exponent r2 = Some (ex, r)"
    by (auto simp add: parse_number_def Let_def r0_def split: prod.splits option.splits)
  from parse_int_part_shorter [OF a] parse_fraction_length [OF b] parse_exponent_length [OF c] r0
  show ?thesis by simp
qed

lemma parse_shorter:
  "(\<forall>cs v r. parse_value n cs = Some (v, r) \<longrightarrow> length r < length cs)
   \<and> (\<forall>cs vs r. parse_elements n cs = Some (vs, r) \<longrightarrow> length r < length cs)
   \<and> (\<forall>cs ms r. parse_members n cs = Some (ms, r) \<longrightarrow> length r < length cs)"
proof (induction n)
  case 0
  show ?case by simp
next
  case (Suc n)
  then have V: "\<And>cs v r. parse_value n cs = Some (v, r) \<Longrightarrow> length r < length cs"
    and E: "\<And>cs vs r. parse_elements n cs = Some (vs, r) \<Longrightarrow> length r < length cs"
    and M: "\<And>cs ms r. parse_members n cs = Some (ms, r) \<Longrightarrow> length r < length cs"
    by blast+
  have ws: "length r < length cs" if "skip_ws cs = c # r" for cs c r
    using skip_ws_length [of cs] that by simp
  have pv: "length r < length cs" if p: "parse_value (Suc n) cs = Some (v, r)" for cs v r
  proof (cases "skip_ws cs")
    case Nil
    with p show ?thesis by simp
  next
    case (Cons c r0)
    note l0 = ws [OF Cons]
    consider (obj) "c = 123" | (arr) "c \<noteq> 123" "c = 91" | (str) "c \<noteq> 123" "c \<noteq> 91" "c = 34"
      | (lit) "c \<noteq> 123" "c \<noteq> 91" "c \<noteq> 34" "c = 116 \<or> c = 102 \<or> c = 110"
      | (num) "c \<noteq> 123" "c \<noteq> 91" "c \<noteq> 34" "c \<noteq> 116" "c \<noteq> 102" "c \<noteq> 110"
      by blast
    then show ?thesis
    proof cases
      case obj
      show ?thesis
      proof (cases "skip_ws r0")
        case Nil
        with p Cons obj show ?thesis by simp
      next
        case inner: (Cons d r')
        note l1 = ws [OF inner]
        show ?thesis
        proof (cases "d = 125")
          case True
          with p Cons obj inner l0 l1 show ?thesis by simp
        next
          case False
          with p Cons obj inner obtain ms where "parse_members n (d # r') = Some (ms, r)"
            by (auto split: option.splits)
          from M [OF this] l0 l1 show ?thesis by simp
        qed
      qed
    next
      case arr
      show ?thesis
      proof (cases "skip_ws r0")
        case Nil
        with p Cons arr show ?thesis by simp
      next
        case inner: (Cons d r')
        note l1 = ws [OF inner]
        show ?thesis
        proof (cases "d = 93")
          case True
          with p Cons arr inner l0 l1 show ?thesis by simp
        next
          case False
          with p Cons arr inner obtain vs where "parse_elements n (d # r') = Some (vs, r)"
            by (auto split: option.splits)
          from E [OF this] l0 l1 show ?thesis by simp
        qed
      qed
    next
      case str
      with p Cons obtain s where "parse_chars r0 = Some (s, r)"
        by (auto split: option.splits)
      from parse_chars_shorter [OF this] l0 show ?thesis by simp
    next
      case lit
      with p Cons obtain word x where "parse_literal word x (c # r0) = Some (v, r)" "word \<noteq> []"
        by (auto simp add: js_def)
      from parse_literal_shorter [OF this] l0 show ?thesis by simp
    next
      case num
      with p Cons obtain q where "parse_number (c # r0) = Some (q, r)"
        by (auto split: if_splits option.splits)
      from parse_number_shorter [OF this] l0 show ?thesis by simp
    qed
  qed
  have pe: "length r < length cs" if p: "parse_elements (Suc n) cs = Some (vs, r)"
    for cs vs r
  proof -
    from p obtain v r0 where a: "parse_value n cs = Some (v, r0)"
      by (auto split: option.splits)
    note l0 = V [OF a]
    from p a obtain d r' where b: "skip_ws r0 = d # r'"
      by (auto split: list.splits)
    note l1 = ws [OF b]
    show ?thesis
    proof (cases "d = 93")
      case True
      with p a b l0 l1 show ?thesis by simp
    next
      case False
      with p a b obtain vs' where "parse_elements n r' = Some (vs', r)"
        by (auto split: if_splits option.splits)
      from E [OF this] l0 l1 show ?thesis by simp
    qed
  qed
  have pm: "length r < length cs" if p: "parse_members (Suc n) cs = Some (ms, r)"
    for cs ms r
  proof -
    from p obtain q r0 where a: "skip_ws cs = q # r0" and q: "q = 34"
      by (auto split: list.splits if_splits)
    note l0 = ws [OF a]
    from p a q obtain k r1 where b: "parse_chars r0 = Some (k, r1)"
      by (auto split: option.splits)
    note l1 = parse_chars_shorter [OF b]
    from p a q b obtain col r2 where c: "skip_ws r1 = col # r2" and col: "col = 58"
      by (auto split: list.splits if_splits)
    note l2 = ws [OF c]
    from p a q b c col obtain v r3 where d: "parse_value n r2 = Some (v, r3)"
      by (auto split: option.splits)
    note l3 = V [OF d]
    from p a q b c col d obtain e r4 where f: "skip_ws r3 = e # r4"
      by (auto split: list.splits)
    note l4 = ws [OF f]
    show ?thesis
    proof (cases "e = 125")
      case True
      with p a q b c col d f l0 l1 l2 l3 l4 show ?thesis by simp
    next
      case False
      with p a q b c col d f obtain ms' where "parse_members n r4 = Some (ms', r)"
        by (auto split: if_splits option.splits)
      from M [OF this] l0 l1 l2 l3 l4 show ?thesis by simp
    qed
  qed
  from pv pe pm show ?case by blast
qed

lemma parse_value_shorter: "parse_value n cs = Some (v, r) \<Longrightarrow> length r < length cs"
  using parse_shorter [of n] by blast

lemma skip_ws_shorter: "skip_ws cs = c # r \<Longrightarrow> length r < length cs"
  using skip_ws_length [of cs] by simp

text \<open>
  With more than twice the length of the text as fuel, one more unit changes nothing.
\<close>

lemma parse_fuel:
  "(\<forall>cs. 2 * length cs < n \<longrightarrow> parse_value (Suc n) cs = parse_value n cs)
   \<and> (\<forall>cs. 2 * length cs + 1 < n \<longrightarrow> parse_elements (Suc n) cs = parse_elements n cs)
   \<and> (\<forall>cs. 2 * length cs + 1 < n \<longrightarrow> parse_members (Suc n) cs = parse_members n cs)"
proof (induction n)
  case 0
  show ?case by simp
next
  case (Suc n)
  then have V: "\<And>cs. 2 * length cs < n \<Longrightarrow> parse_value (Suc n) cs = parse_value n cs"
    and E: "\<And>cs. 2 * length cs + 1 < n \<Longrightarrow> parse_elements (Suc n) cs = parse_elements n cs"
    and M: "\<And>cs. 2 * length cs + 1 < n \<Longrightarrow> parse_members (Suc n) cs = parse_members n cs"
    by blast+
  have pv: "parse_value (Suc (Suc n)) cs = parse_value (Suc n) cs" if h: "2 * length cs < Suc n"
    for cs
  proof (cases "skip_ws cs")
    case Nil
    then show ?thesis by simp
  next
    case (Cons c r0)
    note l0 = skip_ws_shorter [OF Cons]
    show ?thesis
    proof (cases "skip_ws r0")
      case Nil
      with Cons show ?thesis by simp
    next
      case inner: (Cons d r')
      note l1 = skip_ws_shorter [OF inner]
      from h l0 l1 have "2 * length (d # r') + 1 < n" by simp
      then have e: "parse_elements (Suc n) (d # r') = parse_elements n (d # r')"
        and m: "parse_members (Suc n) (d # r') = parse_members n (d # r')"
        by (rule E, rule M)
      show ?thesis
        using e m
        apply (subst parse_value.simps(2) [of "Suc n" cs])
        apply (subst parse_value.simps(2) [of n cs])
        apply (auto simp del: parse_value.simps parse_elements.simps parse_members.simps
            simp add: Cons inner)
        done
    qed
  qed
  have pe: "parse_elements (Suc (Suc n)) cs = parse_elements (Suc n) cs"
    if h: "2 * length cs + 1 < Suc n" for cs
  proof -
    from h have v: "parse_value (Suc n) cs = parse_value n cs"
      by (intro V) simp
    show ?thesis
    proof (cases "parse_value n cs")
      case None
      show ?thesis
        apply (subst parse_elements.simps(2) [of "Suc n" cs])
        apply (subst parse_elements.simps(2) [of n cs])
        apply (simp del: parse_value.simps parse_elements.simps parse_members.simps add: v None)
        done
    next
      case (Some p)
      obtain x r0 where p: "p = (x, r0)" by (cases p)
      with Some have a: "parse_value n cs = Some (x, r0)" by simp
      note l0 = parse_value_shorter [OF a]
      show ?thesis
      proof (cases "skip_ws r0")
        case Nil
        show ?thesis
          apply (subst parse_elements.simps(2) [of "Suc n" cs])
          apply (subst parse_elements.simps(2) [of n cs])
          apply (simp del: parse_value.simps parse_elements.simps parse_members.simps add: v a Nil)
          done
      next
        case (Cons d r')
        note l1 = skip_ws_shorter [OF Cons]
        from h l0 l1 have "2 * length r' + 1 < n" by simp
        then have e: "parse_elements (Suc n) r' = parse_elements n r'"
          by (rule E)
        show ?thesis
          apply (subst parse_elements.simps(2) [of "Suc n" cs])
          apply (subst parse_elements.simps(2) [of n cs])
          apply (simp del: parse_value.simps parse_elements.simps parse_members.simps add: v a Cons e)
          done
      qed
    qed
  qed
  have pm: "parse_members (Suc (Suc n)) cs = parse_members (Suc n) cs"
    if h: "2 * length cs + 1 < Suc n" for cs
  proof (cases "skip_ws cs")
    case Nil
    then show ?thesis by simp
  next
    case (Cons q r0)
    note l0 = skip_ws_shorter [OF Cons]
    show ?thesis
    proof (cases "parse_chars r0")
      case None
      show ?thesis
        apply (subst parse_members.simps(2) [of "Suc n" cs])
        apply (subst parse_members.simps(2) [of n cs])
        apply (simp del: parse_value.simps parse_elements.simps parse_members.simps add: Cons None)
        done
    next
      case (Some p)
      obtain k r1 where "p = (k, r1)" by (cases p)
      with Some have b: "parse_chars r0 = Some (k, r1)" by simp
      note l1 = parse_chars_shorter [OF b]
      show ?thesis
      proof (cases "skip_ws r1")
        case Nil
        show ?thesis
          apply (subst parse_members.simps(2) [of "Suc n" cs])
          apply (subst parse_members.simps(2) [of n cs])
          apply (simp del: parse_value.simps parse_elements.simps parse_members.simps add: Cons b Nil)
          done
      next
        case colon: (Cons col r2)
        note l2 = skip_ws_shorter [OF colon]
        from h l0 l1 l2 have "2 * length r2 < n" by simp
        then have v: "parse_value (Suc n) r2 = parse_value n r2"
          by (rule V)
        show ?thesis
        proof (cases "parse_value n r2")
          case None
          show ?thesis
            apply (subst parse_members.simps(2) [of "Suc n" cs])
            apply (subst parse_members.simps(2) [of n cs])
            apply (simp del: parse_value.simps parse_elements.simps parse_members.simps add: Cons b colon v None)
            done
        next
          case (Some p')
          obtain x r3 where "p' = (x, r3)" by (cases p')
          with Some have d: "parse_value n r2 = Some (x, r3)" by simp
          note l3 = parse_value_shorter [OF d]
          show ?thesis
          proof (cases "skip_ws r3")
            case Nil
            show ?thesis
              apply (subst parse_members.simps(2) [of "Suc n" cs])
              apply (subst parse_members.simps(2) [of n cs])
              apply (simp del: parse_value.simps parse_elements.simps parse_members.simps add: Cons b colon v d Nil)
              done
          next
            case next_char: (Cons e r4)
            note l4 = skip_ws_shorter [OF next_char]
            from h l0 l1 l2 l3 l4 have "2 * length r4 + 1 < n" by simp
            then have m: "parse_members (Suc n) r4 = parse_members n r4"
              by (rule M)
            show ?thesis
              apply (subst parse_members.simps(2) [of "Suc n" cs])
              apply (subst parse_members.simps(2) [of n cs])
              apply (simp del: parse_value.simps parse_elements.simps parse_members.simps add: Cons b colon v d next_char m)
              done
          qed
        qed
      qed
    qed
  qed
  from pv pe pm show ?case by blast
qed

lemma parse_value_more_fuel:
  "2 * length cs < n \<Longrightarrow> parse_value (n + k) cs = parse_value n cs"
proof (induction k)
  case 0
  show ?case by simp
next
  case (Suc k)
  from Suc.prems have "2 * length cs < n + k" by simp
  with parse_fuel [of "n + k"] have "parse_value (Suc (n + k)) cs = parse_value (n + k) cs"
    by blast
  with Suc show ?case by simp
qed

text \<open>
  So \<open>JSON_parse\<close> never fails for want of fuel: with any amount added, the result
  is the same.
\<close>

lemma JSON_parse_fuel:
  "JSON_parse t =
     (case parse_value (2 * length t + 2 + k) t of
        None \<Rightarrow> None
      | Some (v, r) \<Rightarrow> if skip_ws r = [] then Some v else None)"
proof -
  have "parse_value (2 * length t + 2 + k) t = parse_value (2 * length t + 2) t"
    by (rule parse_value_more_fuel) simp
  then show ?thesis
    by (simp only: JSON_parse_def)
qed

section \<open>What \<open>request\<close> does\<close>

lemma request_response:
  assumes "getAuthHeaders c = Inr auth"
    and "fetch srv n (fetch_args auth u options) = (Response r, n')"
  shows "request srv c n u options = (handle_response r, n')"
  using assms by (simp add: request_def)

lemma request_rejected:
  assumes "getAuthHeaders c = Inr auth"
    and "fetch srv n (fetch_args auth u options) = (Rejected, n')"
  shows "request srv c n u options = (Inl FetchRejected, n')"
  using assms by (simp add: request_def)

lemma request_no_key:
  assumes "getAuthHeaders c = Inl e"
  shows "request srv c n u options = (Inl e, n)"
  using assms by (simp add: request_def)

lemma fetch_sent: "fetch srv n rq = (r, n') \<Longrightarrow> sent n' = sent n @ [rq]"
  by (auto simp add: fetch_def split: prod.splits)

lemma keyed_client_headers:
  "getAuthHeaders keyed_client =
     Inr [(js ''Api-Key'', js ''secret''),
          (js ''Content-Type'', js ''application/json''),
          (js ''X-Pinecone-Api-Version'', API_VERSION)]"
  by (simp add: getAuthHeaders_def keyed_client_def new_client_def js_def)

lemma fetch_scripted:
  "fetch scripted (answering (r # rs)) rq = (r, \<lparr>server_state = rs, sent = [rq]\<rparr>)"
  by (simp add: fetch_def answering_def)

section \<open>Classification of responses\<close>

text \<open>
  Claim C4. When the key is there, so that the request is sent, and \<open>fetch\<close>
  resolves to a response with status 401 or 403, \<open>request\<close> throws the
  \<open>AuthenticationError\<close> with the message
  \<open>Authentication failed. Check your API key.\<close>, whatever the headers and the body of
  the response are: nothing of the response is in the error.
\<close>

theorem unauthorized_is_authentication_error:
  assumes "getAuthHeaders c = Inr auth"
    and "fetch srv n (fetch_args auth u options) = (Response r, n')"
    and "status r = 401 \<or> status r = 403"
  shows "fst (request srv c n u options) =
           Inl (AuthenticationError (js ''Authentication failed. Check your API key.''))"
  using assms by (auto simp add: request_def handle_response_def)

theorem unauthorized_is_authentication_error_witness:
  "fst (request scripted keyed_client (answering [reply 401 [] boom_body])
          (Url (js ''https://api.pinecone.io/indexes'')) no_options) =
     Inl (AuthenticationError (js ''Authentication failed. Check your API key.''))"
  unfolding reply_def
  by (rule unauthorized_is_authentication_error [OF keyed_client_headers fetch_scripted]) simp

text \<open>
  Claim C6. When \<open>fetch\<close> resolves to a response with status 202 or 204, or to
  another response with a status from 200 to 299 and an empty body, \<open>request\<close>
  returns \<open>undefined\<close>. For 202 and 204 this holds for every body, parseable or not:
  the body is not looked at.
\<close>

theorem accepted_or_empty_is_undefined:
  assumes "getAuthHeaders c = Inr auth"
    and "fetch srv n (fetch_args auth u options) = (Response r, n')"
    and "status r = 202 \<or> status r = 204 \<or> (response_ok r \<and> resp_text r = [])"
  shows "fst (request srv c n u options) = Inr None"
  using assms by (auto simp add: request_def handle_response_def response_ok_def)

theorem accepted_or_empty_is_undefined_witness:
  "fst (request scripted keyed_client (answering [reply 202 [] []])
          (Url (js ''https://api.pinecone.io/indexes'')) no_options) = Inr None
   \<and> fst (request scripted keyed_client (answering [reply 204 [] (js ''not json'')])
          (Url (js ''https://api.pinecone.io/indexes'')) no_options) = Inr None
   \<and> fst (request scripted keyed_client (answering [reply 200 [] []])
          (Url (js ''https://api.pinecone.io/indexes'')) no_options) = Inr None"
  unfolding reply_def
  by (intro conjI; rule accepted_or_empty_is_undefined [OF keyed_client_headers fetch_scripted])
     (simp_all add: response_ok_def)

lemma digits_val_snoc: "digits_val (xs @ [x]) = 10 * digits_val xs + (x - 48)"
  by (simp add: digits_val_def)

lemma integer_value_snoc: "integer_value (xs @ [x]) = 10 * integer_value xs + (x - 48)"
proof -
  have "(\<Sum>i<length xs. ((xs @ [x]) ! i - 48) * 10 ^ (length (xs @ [x]) - Suc i))
        = (\<Sum>i<length xs. 10 * ((xs ! i - 48) * 10 ^ (length xs - Suc i)))"
  proof (rule sum.cong)
    fix i assume "i \<in> {..<length xs}"
    then have i: "i < length xs" by simp
    then have "length (xs @ [x]) - Suc i = Suc (length xs - Suc i)" by simp
    with i show "((xs @ [x]) ! i - 48) * 10 ^ (length (xs @ [x]) - Suc i)
                 = 10 * ((xs ! i - 48) * 10 ^ (length xs - Suc i))"
      by (simp add: nth_append)
  qed simp
  then show ?thesis
    by (simp add: integer_value_def sum_distrib_left)
qed

lemma digits_val_integer_value: "digits_val v = integer_value v"
proof (induction v rule: rev_induct)
  case Nil
  show ?case by (simp add: digits_val_def integer_value_def)
next
  case (snoc x xs)
  then show ?case by (simp add: digits_val_snoc integer_value_snoc)
qed

lemma digit_not_space: "is_digit c \<Longrightarrow> \<not> is_str_ws c"
  by (auto simp add: is_digit_def is_str_ws_def)

lemma parseInt10_digits:
  assumes "v \<noteq> []" and "\<forall>x\<in>set v. is_digit x"
  shows "parseInt10 v = Num (int (integer_value v))"
proof -
  obtain c r where v: "v = c # r" using assms(1) by (cases v) auto
  with assms(2) have c: "is_digit c" by simp
  then have ws: "dropWhile is_str_ws v = v" using v by (simp add: digit_not_space)
  from c have sign: "c \<noteq> 45" "c \<noteq> 43" by (auto simp add: is_digit_def)
  have tw: "takeWhile is_digit v = v" using assms(2) by (simp add: takeWhile_eq_all_conv)
  show ?thesis
    unfolding parseInt10_def ws
    using sign tw assms(1) by (simp add: v digits_val_integer_value)
qed

text \<open>
  Claim C3. When \<open>fetch\<close> resolves to a response with status 429, \<open>request\<close>
  throws a \<open>RateLimitError\<close>. Its delay is 60 when the response has no
  \<open>Retry-After\<close> header, and the integer the header denotes when its value is a
  string of decimal digits (up to \<open>2 ^ 53\<close>, where a double still is that integer).
\<close>

theorem rate_limit_retry_after:
  assumes "getAuthHeaders c = Inr auth"
    and "fetch srv n (fetch_args auth u options) = (Response r, n')"
    and "status r = 429"
  shows "(headers_get (resp_headers r) (js ''Retry-After'') = None \<longrightarrow>
            fst (request srv c n u options) =
              Inl (RateLimitError (js ''Rate limit exceeded'') (Num 60)))
       \<and> (\<forall>v. headers_get (resp_headers r) (js ''Retry-After'') = Some v
                \<and> v \<noteq> [] \<and> (\<forall>x\<in>set v. is_digit x) \<and> integer_value v \<le> 2 ^ 53 \<longrightarrow>
            fst (request srv c n u options) =
              Inl (RateLimitError (js ''Rate limit exceeded'') (Num (int (integer_value v)))))
       \<and> (\<exists>d. fst (request srv c n u options) =
              Inl (RateLimitError (js ''Rate limit exceeded'') d))"
  using assms
  by (auto simp add: request_def handle_response_def parseInt10_digits split: option.splits)

lemma headers_get_single:
  "headers_get [(js ''Retry-After'', v)] (js ''Retry-After'') = Some v"
  by (simp add: headers_get_def)

lemma integer_value_37: "integer_value (js ''37'') = 37"
  by (simp add: digits_val_integer_value [symmetric] digits_val_def js_def)

theorem rate_limit_retry_after_witness:
  "fst (request scripted keyed_client
          (answering [reply 429 [(js ''Retry-After'', js ''37'')] []])
          (Url (js ''https://api.pinecone.io/indexes'')) no_options) =
     Inl (RateLimitError (js ''Rate limit exceeded'') (Num 37))
   \<and> fst (request scripted keyed_client (answering [reply 429 [] []])
          (Url (js ''https://api.pinecone.io/indexes'')) no_options) =
     Inl (RateLimitError (js ''Rate limit exceeded'') (Num 60))"
proof -
  let ?u = "Url (js ''https://api.pinecone.io/indexes'')"
  let ?r1 = "\<lparr>status = 429, resp_headers = [(js ''Retry-After'', js ''37'')], resp_text = []\<rparr>"
  let ?r2 = "\<lparr>status = 429, resp_headers = [], resp_text = []\<rparr>"
  have digits: "js ''37'' \<noteq> [] \<and> (\<forall>x\<in>set (js ''37''). is_digit x)
                \<and> integer_value (js ''37'') \<le> 2 ^ 53"
    by (simp add: integer_value_37) (simp add: js_def is_digit_def)
  have absent: "headers_get (resp_headers ?r2) (js ''Retry-After'') = None"
    by (simp add: headers_get_def)
  have present: "headers_get (resp_headers ?r1) (js ''Retry-After'') = Some (js ''37'')"
    by (simp add: headers_get_def)
  have s1: "status ?r1 = 429" and s2: "status ?r2 = 429"
    by simp_all
  have "fst (request scripted keyed_client (answering [Response ?r1]) ?u no_options) =
          Inl (RateLimitError (js ''Rate limit exceeded'') (Num (int (integer_value (js ''37'')))))"
    using rate_limit_retry_after [OF keyed_client_headers fetch_scripted s1] digits present
    by blast
  moreover
  have "fst (request scripted keyed_client (answering [Response ?r2]) ?u no_options) =
          Inl (RateLimitError (js ''Rate limit exceeded'') (Num 60))"
    using rate_limit_retry_after [OF keyed_client_headers fetch_scripted s2] absent
    by blast
  ultimately show ?thesis
    by (simp add: reply_def integer_value_37)
qed


text \<open>
  The message \<open>request\<close> computes is the first truthy one of the two fields.
\<close>

lemma api_error_message_truthiness:
  "api_error_message st body = message_by_truthiness st body"
proof (cases "JSON_parse body")
  case None
  then show ?thesis
    by (simp add: api_error_message_def message_by_truthiness_def)
next
  case (Some j)
  show ?thesis
  proof (cases j)
    case (JObj ms)
    show ?thesis
    proof (cases "obj_get ms (js ''error'')")
      case None
      with Some JObj show ?thesis
        by (auto simp add: api_error_message_def message_by_truthiness_def truthy_field_def
            or_default_def split: option.splits)
    next
      case (Some err)
      with \<open>JSON_parse body = Some j\<close> JObj show ?thesis
        by (cases err)
           (auto simp add: api_error_message_def message_by_truthiness_def truthy_field_def
              or_default_def split: option.splits)
    qed
  qed (use Some in \<open>simp_all add: api_error_message_def message_by_truthiness_def
         truthy_field_def or_default_def\<close>)
qed

text \<open>
  Claim C5, as amended. When \<open>fetch\<close> resolves to a response that is not ok and
  whose status is not 429, 401 or 403, \<open>request\<close> throws a \<open>PineconeApiError\<close>
  with that status. Its message is the nested \<open>error.message\<close> field of the parsed
  body when that is truthy, else the top-level \<open>message\<close> field when that is truthy,
  else \<open>API error: {status}\<close>; so also when the body does not parse.
\<close>

theorem api_error_message_by_truthiness:
  assumes "getAuthHeaders c = Inr auth"
    and "fetch srv n (fetch_args auth u options) = (Response r, n')"
    and "\<not> response_ok r"
    and "status r \<noteq> 429" and "status r \<noteq> 401" and "status r \<noteq> 403"
  shows "fst (request srv c n u options) =
           Inl (PineconeApiError (message_by_truthiness (status r) (resp_text r)) (status r))"
  using assms
  by (simp add: request_def handle_response_def api_error_message_truthiness)

lemma boom_message: "message_by_truthiness 500 boom_body = JStr (js ''boom'')"
  by code_simp

theorem api_error_message_by_truthiness_witness:
  "fst (request scripted keyed_client (answering [reply 500 [] boom_body])
          (Url (js ''https://api.pinecone.io/indexes'')) no_options) =
     Inl (PineconeApiError (JStr (js ''boom'')) 500)"
proof -
  let ?r = "\<lparr>status = 500, resp_headers = [], resp_text = boom_body\<rparr>"
  have "\<not> response_ok ?r" and "status ?r \<noteq> 429" and "status ?r \<noteq> 401" and "status ?r \<noteq> 403"
    by (simp_all add: response_ok_def)
  from api_error_message_by_truthiness [OF keyed_client_headers fetch_scripted this]
  show ?thesis
    by (simp add: reply_def boom_message)
qed

text \<open>
  Claim C5 as stated fails where a field is present and falsy: for status 500 and
  the body \<open>{"message":""}\<close> the message is \<open>API error: 500\<close>, not the empty string
  the field holds.
\<close>

theorem api_error_message_by_presence_counterexample:
  "fst (request scripted keyed_client (answering [reply 500 [] empty_message_body])
          (Url (js ''https://api.pinecone.io/indexes'')) (no_options :: unit request_init)) =
     Inl (PineconeApiError (JStr (js ''API error: 500'')) 500)
   \<and> message_by_presence 500 empty_message_body = JStr []
   \<and> fst (request scripted keyed_client (answering [reply 500 [] empty_message_body])
          (Url (js ''https://api.pinecone.io/indexes'')) (no_options :: unit request_init)) \<noteq>
     Inl (PineconeApiError (message_by_presence 500 empty_message_body) 500)"
  by code_simp

section \<open>The endpoint cache\<close>

lemma map_get_map_set:
  "map_get (map_set m k v) k' = (if k' = k then Some v else map_get m k')"
  by (induction m) (auto simp add: map_get_def)

lemma map_get_map_delete:
  "map_get (map_delete m k) k' = (if k' = k then None else map_get m k')"
  by (induction m) (auto simp add: map_get_def map_delete_def)

lemma cache_get_stored:
  "cache_get (c\<lparr>indexHostCache := map_set (indexHostCache c) k v\<rparr>) k' =
     (if k' = k then v else cache_get c k')"
  by (simp add: cache_get_def map_get_map_set)

lemma cache_get_evicted:
  "cache_get (c\<lparr>indexHostCache := map_delete (indexHostCache c) k\<rparr>) k' =
     (if k' = k then None else cache_get c k')"
  by (simp add: cache_get_def map_get_map_delete)

lemma getAuthHeaders_cache [simp]:
  "getAuthHeaders (c\<lparr>indexHostCache := m\<rparr>) = getAuthHeaders c"
  by (simp add: getAuthHeaders_def)

lemma request_cache [simp]:
  "request srv (c\<lparr>indexHostCache := m\<rparr>) n u options = request srv c n u options"
  by (simp add: request_def)

lemma request_sent:
  assumes "getAuthHeaders c = Inr auth"
  shows "sent (snd (request srv c n u options)) = sent n @ [fetch_args auth u options]"
  using assms
  by (auto simp add: request_def fetch_def split: prod.splits fetch_result.splits)

lemma getIndexHost_hit:
  assumes "truthy (cache_get c k)"
  shows "getIndexHost srv c n k = (Inr (cache_get c k), c, n)"
  using assms by (simp add: getIndexHost_def)

lemma getIndexHost_miss_failed:
  assumes "\<not> truthy (cache_get c k)" and "describeIndex srv c n k = (Inl e, n1)"
  shows "getIndexHost srv c n k = (Inl e, c, n1)"
  using assms by (simp add: getIndexHost_def)

lemma getIndexHost_miss_resolved:
  assumes "\<not> truthy (cache_get c k)" and "describeIndex srv c n k = (Inr index, n1)"
    and "member index (js ''host'') = Inr h"
  shows "getIndexHost srv c n k =
           (Inr h, c\<lparr>indexHostCache := map_set (indexHostCache c) k h\<rparr>, n1)"
  using assms by (simp add: getIndexHost_def)

lemma getIndexHost_miss_no_host:
  assumes "\<not> truthy (cache_get c k)" and "describeIndex srv c n k = (Inr index, n1)"
    and "member index (js ''host'') = Inl e"
  shows "getIndexHost srv c n k = (Inl e, c, n1)"
  using assms by (simp add: getIndexHost_def)

lemma describeIndex_sent:
  assumes "getAuthHeaders c = Inr auth" and "encodeURIComponent k = Some name"
  shows "sent (snd (describeIndex srv c n k)) = sent n @ [describe_request auth name]"
  using assms
  by (simp add: describeIndex_def controlPlaneRequest_def describe_request_def request_sent)

lemma describeIndex_resolved_encodes:
  assumes "describeIndex srv c n k = (Inr index, n1)"
  shows "\<exists>name. encodeURIComponent k = Some name"
  using assms by (cases "encodeURIComponent k") (auto simp add: describeIndex_def)

lemma describeIndex_resolved_key:
  assumes "describeIndex srv c n k = (Inr index, n1)"
  shows "\<exists>auth. getAuthHeaders c = Inr auth"
  using assms
  by (cases "getAuthHeaders c")
     (auto simp add: describeIndex_def controlPlaneRequest_def request_def split: option.splits)

lemma dataPlaneRequest_hit:
  assumes "truthy (cache_get c k)"
  shows "dataPlaneRequest srv c n k endpoint options =
           (fst (request srv c n (data_plane_url (cache_get c k) endpoint) options), c,
            snd (request srv c n (data_plane_url (cache_get c k) endpoint) options))"
  using assms by (simp add: dataPlaneRequest_def getIndexHost_hit split: prod.splits)

lemma dataPlaneRequest_miss_resolved:
  assumes "\<not> truthy (cache_get c k)" and "describeIndex srv c n k = (Inr index, n1)"
    and "member index (js ''host'') = Inr h"
  shows "dataPlaneRequest srv c n k endpoint options =
           (fst (request srv c n1 (data_plane_url h endpoint) options),
            c\<lparr>indexHostCache := map_set (indexHostCache c) k h\<rparr>,
            snd (request srv c n1 (data_plane_url h endpoint) options))"
  using assms
  by (simp add: dataPlaneRequest_def getIndexHost_miss_resolved split: prod.splits)

text \<open>A data-plane request changes nothing of the client but cache entries of its own index.\<close>

lemma dataPlaneRequest_client:
  assumes "dataPlaneRequest srv c n k endpoint options = (r, c', n')"
  shows "c' = c \<or>
         (\<not> truthy (cache_get c k) \<and>
          (\<exists>index n1 h. describeIndex srv c n k = (Inr index, n1)
              \<and> member index (js ''host'') = Inr h
              \<and> c' = c\<lparr>indexHostCache := map_set (indexHostCache c) k h\<rparr>))"
  using assms
  by (auto simp add: dataPlaneRequest_def getIndexHost_def Let_def
      split: prod.splits sum.splits if_splits)

lemma deleteIndex_client:
  assumes "deleteIndex srv c n k = (r, c', n')"
  shows "(\<exists>e. r = Inl e \<and> c' = c) \<or>
         (r = Inr () \<and> c' = c\<lparr>indexHostCache := map_delete (indexHostCache c) k\<rparr>)"
  using assms
  by (auto simp add: deleteIndex_def split: option.splits prod.splits sum.splits)


lemma dataPlaneRequest_miss_sent:
  assumes "\<not> truthy (cache_get c k)" and "getAuthHeaders c = Inr auth"
    and "encodeURIComponent k = Some name"
  shows "\<exists>rest. sent (snd (snd (dataPlaneRequest srv c n k endpoint options))) =
                  sent n @ describe_request auth name # rest"
proof (cases "describeIndex srv c n k")
  case (Pair res n1)
  from describeIndex_sent [OF assms(2,3), of srv n] Pair
  have n1: "sent n1 = sent n @ [describe_request auth name]" by simp
  show ?thesis
  proof (cases res)
    case (Inl e)
    with Pair assms(1) n1 show ?thesis
      by (simp add: dataPlaneRequest_def getIndexHost_miss_failed)
  next
    case (Inr index)
    show ?thesis
    proof (cases "member index (js ''host'')")
      case (Inl e)
      with Pair Inr assms(1) n1 show ?thesis
        by (simp add: dataPlaneRequest_def getIndexHost_miss_no_host)
    next
      case (Inr h)
      from Pair \<open>res = Inr index\<close> have "describeIndex srv c n k = (Inr index, n1)" by simp
      from dataPlaneRequest_miss_resolved [OF assms(1) this Inr]
      show ?thesis
        using n1 request_sent [OF assms(2), of srv n1] by simp
    qed
  qed
qed

lemma perform_headers:
  assumes "perform srv (c, n) call = (c', n')"
  shows "getAuthHeaders c' = getAuthHeaders c"
proof (cases call)
  case (DataPlaneCall k endpoint options)
  with assms obtain r where "dataPlaneRequest srv c n k endpoint options = (r, c', n')"
    by (auto split: prod.splits)
  from dataPlaneRequest_client [OF this] show ?thesis by auto
next
  case (ControlPlaneCall endpoint options)
  with assms show ?thesis by (auto split: prod.splits)
next
  case (DeleteIndexCall k)
  with assms obtain r where "deleteIndex srv c n k = (r, c', n')"
    by (auto split: prod.splits)
  from deleteIndex_client [OF this] show ?thesis by auto
qed

lemma perform_keeps_truthy:
  assumes "perform srv (c, n) call = (c', n')" and "call \<noteq> DeleteIndexCall k"
    and "truthy (cache_get c k)"
  shows "cache_get c' k = cache_get c k"
proof (cases call)
  case (DataPlaneCall k' endpoint options)
  with assms(1) obtain r where "dataPlaneRequest srv c n k' endpoint options = (r, c', n')"
    by (auto split: prod.splits)
  from dataPlaneRequest_client [OF this] assms(3) show ?thesis
    by (auto simp add: cache_get_stored)
next
  case (ControlPlaneCall endpoint options)
  with assms(1) show ?thesis by (auto split: prod.splits)
next
  case (DeleteIndexCall k')
  with assms(1) obtain r where "deleteIndex srv c n k' = (r, c', n')"
    by (auto split: prod.splits)
  from deleteIndex_client [OF this] assms(2) DeleteIndexCall show ?thesis
    by (auto simp add: cache_get_evicted)
qed

lemma perform_keeps_falsy:
  assumes "perform srv (c, n) call = (c', n')" and "\<forall>ep opts. call \<noteq> DataPlaneCall k ep opts"
    and "\<not> truthy (cache_get c k)"
  shows "\<not> truthy (cache_get c' k)"
proof (cases call)
  case (DataPlaneCall k' endpoint options)
  with assms(2) have "k' \<noteq> k" by auto
  from DataPlaneCall assms(1)
  obtain r where "dataPlaneRequest srv c n k' endpoint options = (r, c', n')"
    by (auto split: prod.splits)
  from dataPlaneRequest_client [OF this] assms(3) \<open>k' \<noteq> k\<close> show ?thesis
    by (auto simp add: cache_get_stored)
next
  case (ControlPlaneCall endpoint options)
  with assms(1,3) show ?thesis by (auto split: prod.splits)
next
  case (DeleteIndexCall k')
  with assms(1) obtain r where "deleteIndex srv c n k' = (r, c', n')"
    by (auto split: prod.splits)
  from deleteIndex_client [OF this] assms(3) show ?thesis
    by (auto simp add: cache_get_evicted split: if_splits)
qed

lemma session_Cons: "session srv s (call # calls) = session srv (perform srv s call) calls"
  by (simp add: session_def)

lemma session_headers:
  "session srv (c, n) calls = (c', n') \<Longrightarrow> getAuthHeaders c' = getAuthHeaders c"
proof (induction calls arbitrary: c n)
  case Nil
  then show ?case by (simp add: session_def)
next
  case (Cons call calls)
  obtain c1 n1 where step: "perform srv (c, n) call = (c1, n1)"
    by (cases "perform srv (c, n) call")
  with Cons.prems have "session srv (c1, n1) calls = (c', n')"
    by (simp add: session_Cons)
  from Cons.IH [OF this] perform_headers [OF step] show ?case by simp
qed

lemma session_keeps_truthy:
  "session srv (c, n) calls = (c', n') \<Longrightarrow> DeleteIndexCall k \<notin> set calls \<Longrightarrow>
   truthy (cache_get c k) \<Longrightarrow> cache_get c' k = cache_get c k"
proof (induction calls arbitrary: c n)
  case Nil
  then show ?case by (simp add: session_def)
next
  case (Cons call calls)
  obtain c1 n1 where step: "perform srv (c, n) call = (c1, n1)"
    by (cases "perform srv (c, n) call")
  from Cons.prems(2) have ne: "call \<noteq> DeleteIndexCall k" and rest: "DeleteIndexCall k \<notin> set calls"
    by auto
  from perform_keeps_truthy [OF step ne Cons.prems(3)]
  have same: "cache_get c1 k = cache_get c k" .
  from Cons.prems(1) step have "session srv (c1, n1) calls = (c', n')"
    by (simp add: session_Cons)
  from Cons.IH [OF this rest] same Cons.prems(3) show ?case by simp
qed

lemma session_keeps_falsy:
  "session srv (c, n) calls = (c', n') \<Longrightarrow> \<forall>ep opts. DataPlaneCall k ep opts \<notin> set calls \<Longrightarrow>
   \<not> truthy (cache_get c k) \<Longrightarrow> \<not> truthy (cache_get c' k)"
proof (induction calls arbitrary: c n)
  case Nil
  then show ?case by (simp add: session_def)
next
  case (Cons call calls)
  obtain c1 n1 where step: "perform srv (c, n) call = (c1, n1)"
    by (cases "perform srv (c, n) call")
  from Cons.prems(2) have ne: "\<forall>ep opts. call \<noteq> DataPlaneCall k ep opts"
    and rest: "\<forall>ep opts. DataPlaneCall k ep opts \<notin> set calls"
    by auto
  from perform_keeps_falsy [OF step ne Cons.prems(3)]
  have falsy: "\<not> truthy (cache_get c1 k)" .
  from Cons.prems(1) step have "session srv (c1, n1) calls = (c', n')"
    by (simp add: session_Cons)
  from Cons.IH [OF this rest falsy] show ?case .
qed


text \<open>
  Claim C9. When the cache has no truthy entry for the index and the describe call
  fails, a data-plane request fails with the same error, the client is as before (no
  entry is stored), and nothing is sent after the describe request.
\<close>

theorem failed_resolution_propagates:
  assumes "\<not> truthy (cache_get c k)" and "describeIndex srv c n k = (Inl e, n1)"
  shows "dataPlaneRequest srv c n k endpoint options = (Inl e, c, n1)"
  using assms by (simp add: dataPlaneRequest_def getIndexHost_miss_failed)

theorem failed_resolution_propagates_witness:
  "dataPlaneRequest scripted keyed_client (answering [reply 404 [] boom_body])
     (js ''idx'') (js ''/query'') (no_options :: unit request_init) =
     (Inl (PineconeApiError (JStr (js ''boom'')) 404), keyed_client,
      \<lparr>server_state = [], sent = [describe_request keyed_headers (js ''idx'')]\<rparr>)"
proof -
  have miss: "\<not> truthy (cache_get keyed_client (js ''idx''))"
    by code_simp
  have failed: "describeIndex scripted keyed_client (answering [reply 404 [] boom_body]) (js ''idx'') =
      (Inl (PineconeApiError (JStr (js ''boom'')) 404),
       \<lparr>server_state = [], sent = [describe_request keyed_headers (js ''idx'') :: unit http_request]\<rparr>)"
    by code_simp
  from failed_resolution_propagates [OF miss failed] show ?thesis .
qed


lemma keyed_client_auth: "getAuthHeaders keyed_client = Inr keyed_headers"
  by code_simp

text \<open>
  Claim C1, as amended. With the key there, a data-plane request for an index whose
  cached address is truthy sends its own request and nothing else, and leaves the
  client as it is. With no truthy cached address, and a describe call that succeeds
  with a description whose \<open>host\<close> is \<open>h\<close>, it sends the describe request, stores
  \<open>h\<close> under the index name, and sends its own request to \<open>h\<close>: two round trips.
  When \<open>h\<close> is truthy (a non-empty string), after any calls that do not delete this
  index a data-plane request for it sends one request, to \<open>h\<close>, and no describe
  request.
\<close>

theorem resolution_once_then_cached:
  assumes "getAuthHeaders c = Inr auth"
  shows
  "(truthy (cache_get c k) \<longrightarrow>
      dataPlaneRequest srv c n k endpoint options =
        (fst (request srv c n (data_plane_url (cache_get c k) endpoint) options), c,
         snd (request srv c n (data_plane_url (cache_get c k) endpoint) options))
      \<and> sent (snd (snd (dataPlaneRequest srv c n k endpoint options))) =
          sent n @ [fetch_args auth (data_plane_url (cache_get c k) endpoint) options])
   \<and> (\<forall>index n1 h.
        \<not> truthy (cache_get c k) \<and> describeIndex srv c n k = (Inr index, n1)
        \<and> member index (js ''host'') = Inr h \<longrightarrow>
        (\<exists>name c1 n2.
           encodeURIComponent k = Some name
           \<and> dataPlaneRequest srv c n k endpoint options =
               (fst (request srv c n1 (data_plane_url h endpoint) options), c1, n2)
           \<and> indexHostCache c1 = map_set (indexHostCache c) k h
           \<and> cache_get c1 k = h
           \<and> sent n2 = sent n @ [describe_request auth name,
                                  fetch_args auth (data_plane_url h endpoint) options]
           \<and> (truthy h \<longrightarrow>
                (\<forall>calls c3 n3 endpoint' options'.
                   DeleteIndexCall k \<notin> set calls \<and> session srv (c1, n2) calls = (c3, n3) \<longrightarrow>
                   sent (snd (snd (dataPlaneRequest srv c3 n3 k endpoint' options'))) =
                     sent n3 @ [fetch_args auth (data_plane_url h endpoint') options']))))"
proof (intro conjI impI allI)
  assume hit: "truthy (cache_get c k)"
  show "dataPlaneRequest srv c n k endpoint options =
        (fst (request srv c n (data_plane_url (cache_get c k) endpoint) options), c,
         snd (request srv c n (data_plane_url (cache_get c k) endpoint) options))"
    by (rule dataPlaneRequest_hit [OF hit])
  show "sent (snd (snd (dataPlaneRequest srv c n k endpoint options))) =
          sent n @ [fetch_args auth (data_plane_url (cache_get c k) endpoint) options]"
    by (simp add: dataPlaneRequest_hit [OF hit] request_sent [OF assms])
next
  fix index n1 h
  assume "\<not> truthy (cache_get c k) \<and> describeIndex srv c n k = (Inr index, n1)
          \<and> member index (js ''host'') = Inr h"
  then have miss: "\<not> truthy (cache_get c k)"
    and descr: "describeIndex srv c n k = (Inr index, n1)"
    and host: "member index (js ''host'') = Inr h"
    by simp_all
  from describeIndex_resolved_encodes [OF descr]
  obtain name where name: "encodeURIComponent k = Some name" by blast
  define c1 where "c1 = c\<lparr>indexHostCache := map_set (indexHostCache c) k h\<rparr>"
  define n2 where "n2 = snd (request srv c n1 (data_plane_url h endpoint) options)"
  have first: "dataPlaneRequest srv c n k endpoint options =
                 (fst (request srv c n1 (data_plane_url h endpoint) options), c1, n2)"
    by (simp add: dataPlaneRequest_miss_resolved [OF miss descr host] c1_def n2_def)
  have n1: "sent n1 = sent n @ [describe_request auth name]"
    using describeIndex_sent [OF assms name, of srv n] descr by simp
  have n2: "sent n2 = sent n @ [describe_request auth name,
                                 fetch_args auth (data_plane_url h endpoint) options]"
    by (simp add: n2_def request_sent [OF assms] n1)
  have stored: "cache_get c1 k = h"
    by (simp add: c1_def cache_get_stored)
  have key1: "getAuthHeaders c1 = Inr auth"
    by (simp add: c1_def assms)
  have later: "sent (snd (snd (dataPlaneRequest srv c3 n3 k endpoint' options'))) =
                 sent n3 @ [fetch_args auth (data_plane_url h endpoint') options']"
    if "truthy h" and "DeleteIndexCall k \<notin> set calls" and "session srv (c1, n2) calls = (c3, n3)"
    for calls c3 n3 endpoint' options'
  proof -
    from that(1) stored have t1: "truthy (cache_get c1 k)" by simp
    from session_keeps_truthy [OF that(3,2) t1] stored
    have kept: "cache_get c3 k = h" by simp
    with that(1) have t3: "truthy (cache_get c3 k)" by simp
    from session_headers [OF that(3)] key1 have key3: "getAuthHeaders c3 = Inr auth" by simp
    show ?thesis
      by (simp add: dataPlaneRequest_hit [OF t3] request_sent [OF key3] kept)
  qed
  show "\<exists>name c1 n2.
           encodeURIComponent k = Some name
           \<and> dataPlaneRequest srv c n k endpoint options =
               (fst (request srv c n1 (data_plane_url h endpoint) options), c1, n2)
           \<and> indexHostCache c1 = map_set (indexHostCache c) k h
           \<and> cache_get c1 k = h
           \<and> sent n2 = sent n @ [describe_request auth name,
                                  fetch_args auth (data_plane_url h endpoint) options]
           \<and> (truthy h \<longrightarrow>
                (\<forall>calls c3 n3 endpoint' options'.
                   DeleteIndexCall k \<notin> set calls \<and> session srv (c1, n2) calls = (c3, n3) \<longrightarrow>
                   sent (snd (snd (dataPlaneRequest srv c3 n3 k endpoint' options'))) =
                     sent n3 @ [fetch_args auth (data_plane_url h endpoint') options']))"
    using name first n2 stored later
    by (intro exI [of _ name] exI [of _ c1] exI [of _ n2]) (auto simp add: c1_def)
qed


theorem resolution_once_then_cached_witness:
  "sent (snd (snd resolved_first)) =
     [describe_request keyed_headers (js ''idx''), stats_request (js ''idx-1.svc.pinecone.io'')]
   \<and> sent (snd (snd resolved_second)) =
     sent (snd (snd resolved_first)) @ [stats_request (js ''idx-1.svc.pinecone.io'')]"
proof -
  let ?script = "[reply 200 [] host_body, reply 200 [] matches_body,
                  reply 200 [] matches_body, reply 202 [] [],
                  reply 200 [] host_body, reply 200 [] matches_body]"
  let ?n = "answering ?script :: (unit, fetch_result list) net"
  let ?n1 = "\<lparr>server_state = tl ?script,
              sent = [describe_request keyed_headers (js ''idx'') :: unit http_request]\<rparr>"
  let ?h = "Some (JStr (js ''idx-1.svc.pinecone.io''))"
  let ?ep = "js ''/describe_index_stats''"
  have miss: "\<not> truthy (cache_get keyed_client (js ''idx''))"
    by code_simp
  have descr: "describeIndex scripted keyed_client ?n (js ''idx'') = (Inr (Some host_index), ?n1)"
    by code_simp
  have host: "member (Some host_index) (js ''host'') = Inr ?h"
    by code_simp
  have name: "encodeURIComponent (js ''idx'') = Some (js ''idx'')"
    by code_simp
  have url: "data_plane_url ?h ?ep = Url (js ''https://'' @ js ''idx-1.svc.pinecone.io'' @ ?ep)"
    by (simp add: data_plane_url_def)
  from resolution_once_then_cached [OF keyed_client_auth, of "js ''idx''" scripted ?n ?ep no_options]
    miss descr host
  obtain nm c1 n2 where enc: "encodeURIComponent (js ''idx'') = Some nm"
    and first: "dataPlaneRequest scripted keyed_client ?n (js ''idx'') ?ep no_options =
                  (fst (request scripted keyed_client ?n1 (data_plane_url ?h ?ep) no_options), c1, n2)"
    and sent2: "sent n2 = sent ?n @ [describe_request keyed_headers nm,
                                     fetch_args keyed_headers (data_plane_url ?h ?ep) no_options]"
    and later: "truthy ?h \<longrightarrow>
         (\<forall>calls c3 n3 endpoint' options'.
             DeleteIndexCall (js ''idx'') \<notin> set calls \<and> session scripted (c1, n2) calls = (c3, n3) \<longrightarrow>
             sent (snd (snd (dataPlaneRequest scripted c3 n3 (js ''idx'') endpoint' options'))) =
               sent n3 @ [fetch_args keyed_headers (data_plane_url ?h endpoint') options'])"
    by blast
  from enc name have nm: "nm = js ''idx''" by simp
  from first have c1: "fst (snd resolved_first) = c1" and n2: "snd (snd resolved_first) = n2"
    by (simp_all add: resolved_first_def)
  have truthy: "truthy ?h" by (simp add: js_def)
  have "session scripted (c1, n2) [] = (c1, n2)" by (simp add: session_def)
  with later truthy
  have "sent (snd (snd (dataPlaneRequest scripted c1 n2 (js ''idx'') ?ep no_options))) =
          sent n2 @ [fetch_args keyed_headers (data_plane_url ?h ?ep) no_options]"
    by (metis empty_iff empty_set)
  then have second: "sent (snd (snd resolved_second)) =
      sent (snd (snd resolved_first)) @ [stats_request (js ''idx-1.svc.pinecone.io'')]"
    by (simp add: resolved_second_def c1 n2 url stats_request_def)
  from sent2 have "sent (snd (snd resolved_first)) =
      [describe_request keyed_headers (js ''idx''), stats_request (js ''idx-1.svc.pinecone.io'')]"
    by (simp add: n2 nm url stats_request_def answering_def)
  with second show ?thesis by simp
qed

text \<open>
  Claim C1 as stated fails when the description has an empty host: the first call
  stores the empty string, and the second call for the same index sends the describe
  request again.
\<close>

theorem empty_host_resolved_again:
  "map_get (indexHostCache (fst (snd empty_host_first))) (js ''idx'') = Some (Some (JStr []))
   \<and> sent (snd (snd empty_host_first)) =
       [describe_request keyed_headers (js ''idx''), stats_request []]
   \<and> sent (snd (snd empty_host_second)) =
       sent (snd (snd empty_host_first)) @
       [describe_request keyed_headers (js ''idx''), stats_request []]"
  by code_simp


text \<open>
  Claim C10. When the describe call succeeds with an empty string as the host,
  \<open>getIndexHost\<close> stores it under the index name. A client that holds the empty
  string for an index still starts every data-plane request for it with the describe
  request: the stored address is never served.
\<close>

theorem empty_address_stored_never_served:
  assumes "getAuthHeaders c = Inr auth"
  shows
  "(\<forall>index n1.
      \<not> truthy (cache_get c k) \<and> describeIndex srv c n k = (Inr index, n1)
      \<and> member index (js ''host'') = Inr (Some (JStr [])) \<longrightarrow>
      getIndexHost srv c n k =
        (Inr (Some (JStr [])),
         c\<lparr>indexHostCache := map_set (indexHostCache c) k (Some (JStr []))\<rparr>, n1)
      \<and> map_get (map_set (indexHostCache c) k (Some (JStr []))) k = Some (Some (JStr [])))
   \<and> (\<forall>name.
        map_get (indexHostCache c) k = Some (Some (JStr [])) \<and> encodeURIComponent k = Some name \<longrightarrow>
        (\<exists>rest. sent (snd (snd (dataPlaneRequest srv c n k endpoint options))) =
                  sent n @ describe_request auth name # rest))"
proof (intro conjI allI impI)
  fix index n1
  assume "\<not> truthy (cache_get c k) \<and> describeIndex srv c n k = (Inr index, n1)
          \<and> member index (js ''host'') = Inr (Some (JStr []))"
  then show "getIndexHost srv c n k =
        (Inr (Some (JStr [])),
         c\<lparr>indexHostCache := map_set (indexHostCache c) k (Some (JStr []))\<rparr>, n1)"
    by (simp add: getIndexHost_miss_resolved)
  show "map_get (map_set (indexHostCache c) k (Some (JStr []))) k = Some (Some (JStr []))"
    by (simp add: map_get_map_set)
next
  fix name
  assume "map_get (indexHostCache c) k = Some (Some (JStr [])) \<and> encodeURIComponent k = Some name"
  then have stored: "map_get (indexHostCache c) k = Some (Some (JStr []))"
    and name: "encodeURIComponent k = Some name"
    by simp_all
  from stored have "\<not> truthy (cache_get c k)"
    by (simp add: cache_get_def)
  from dataPlaneRequest_miss_sent [OF this assms name]
  show "\<exists>rest. sent (snd (snd (dataPlaneRequest srv c n k endpoint options))) =
                  sent n @ describe_request auth name # rest" .
qed

theorem empty_address_stored_never_served_witness:
  "map_get (indexHostCache (fst (snd empty_host_first))) (js ''idx'') = Some (Some (JStr []))
   \<and> (\<exists>rest. sent (snd (snd empty_host_second)) =
         sent (snd (snd empty_host_first)) @ describe_request keyed_headers (js ''idx'') # rest)"
proof -
  have stored: "map_get (indexHostCache (fst (snd empty_host_first))) (js ''idx'') =
                  Some (Some (JStr []))"
    by code_simp
  have name: "encodeURIComponent (js ''idx'') = Some (js ''idx'')"
    by code_simp
  have key: "getAuthHeaders (fst (snd empty_host_first)) = Inr keyed_headers"
    by code_simp
  from empty_address_stored_never_served [OF key, of "js ''idx''" scripted
      "snd (snd empty_host_first)" "js ''/describe_index_stats''" no_options]
    stored name
  have "\<exists>rest. sent (snd (snd empty_host_second)) =
         sent (snd (snd empty_host_first)) @ describe_request keyed_headers (js ''idx'') # rest"
    unfolding empty_host_second_def by blast
  with stored show ?thesis by simp
qed


lemma deleteIndex_done:
  assumes "deleteIndex srv c n k = (Inr u, c', n')"
  shows "\<exists>auth name. getAuthHeaders c = Inr auth \<and> encodeURIComponent k = Some name"
  using assms
  by (cases "getAuthHeaders c"; cases "encodeURIComponent k")
     (auto simp add: deleteIndex_def controlPlaneRequest_def request_def
        split: prod.splits sum.splits)

lemma perform_entries:
  assumes "perform srv (c1, n1) call = (c2, n2)"
  shows "(map_get (indexHostCache c2) k = Some v \<and> map_get (indexHostCache c1) k \<noteq> Some v \<longrightarrow>
           (\<exists>ep opts index n3. call = DataPlaneCall k ep opts
               \<and> describeIndex srv c1 n1 k = (Inr index, n3)
               \<and> member index (js ''host'') = Inr v))
       \<and> (map_get (indexHostCache c1) k \<noteq> None \<and> map_get (indexHostCache c2) k = None \<longrightarrow>
           call = DeleteIndexCall k \<and> fst (deleteIndex srv c1 n1 k) = Inr ())"
proof (cases call)
  case (DataPlaneCall k' endpoint options)
  with assms obtain r where "dataPlaneRequest srv c1 n1 k' endpoint options = (r, c2, n2)"
    by (auto split: prod.splits)
  from dataPlaneRequest_client [OF this] DataPlaneCall show ?thesis
    by (auto simp add: map_get_map_set split: if_splits)
next
  case (ControlPlaneCall endpoint options)
  with assms show ?thesis by (auto split: prod.splits)
next
  case (DeleteIndexCall k')
  with assms obtain r where del: "deleteIndex srv c1 n1 k' = (r, c2, n2)"
    by (auto split: prod.splits)
  from deleteIndex_client [OF this] DeleteIndexCall del show ?thesis
    by (auto simp add: map_get_map_delete split: if_splits)
qed

text \<open>
  Claim C2. A \<open>deleteIndex\<close> that succeeds returns a client whose cache has no
  entry for the index and is otherwise as before; from then on, until a data-plane
  request for this index is made, such a request starts with the describe request.
  A \<open>deleteIndex\<close> that fails leaves the client as it is. In any single call, an
  entry appears or changes only in a data-plane request for its index whose describe
  call succeeded, with the described host as its value, and an entry disappears only
  in a \<open>deleteIndex\<close> of its index that succeeded.
\<close>

theorem delete_evicts_entry:
  "(deleteIndex srv c n k = (Inr (), c', n') \<longrightarrow>
      indexHostCache c' = map_delete (indexHostCache c) k
      \<and> map_get (indexHostCache c') k = None
      \<and> (\<forall>k'. k' \<noteq> k \<longrightarrow> map_get (indexHostCache c') k' = map_get (indexHostCache c) k')
      \<and> (\<exists>auth name.
           getAuthHeaders c' = Inr auth \<and> encodeURIComponent k = Some name
           \<and> (\<forall>calls c2 n2 endpoint options.
                (\<forall>ep opts. DataPlaneCall k ep opts \<notin> set calls)
                \<and> session srv (c', n') calls = (c2, n2) \<longrightarrow>
                (\<exists>rest. sent (snd (snd (dataPlaneRequest srv c2 n2 k endpoint options))) =
                          sent n2 @ describe_request auth name # rest))))
   \<and> (\<forall>e. deleteIndex srv c n k = (Inl e, c', n') \<longrightarrow> c' = c)
   \<and> (\<forall>call c1 n1 c2 n2 v.
        perform srv (c1, n1) call = (c2, n2) \<longrightarrow>
        (map_get (indexHostCache c2) k = Some v \<and> map_get (indexHostCache c1) k \<noteq> Some v \<longrightarrow>
           (\<exists>ep opts index n3. call = DataPlaneCall k ep opts
               \<and> describeIndex srv c1 n1 k = (Inr index, n3)
               \<and> member index (js ''host'') = Inr v))
        \<and> (map_get (indexHostCache c1) k \<noteq> None \<and> map_get (indexHostCache c2) k = None \<longrightarrow>
           call = DeleteIndexCall k \<and> fst (deleteIndex srv c1 n1 k) = Inr ()))"
proof (intro conjI allI impI)
  assume del: "deleteIndex srv c n k = (Inr (), c', n')"
  from deleteIndex_client [OF del]
  have c': "c' = c\<lparr>indexHostCache := map_delete (indexHostCache c) k\<rparr>" by simp
  then show "indexHostCache c' = map_delete (indexHostCache c) k" by simp
  from c' show "map_get (indexHostCache c') k = None"
    by (simp add: map_get_map_delete)
  from deleteIndex_done [OF del]
  obtain auth name where key: "getAuthHeaders c = Inr auth"
    and name: "encodeURIComponent k = Some name"
    by blast
  from key c' have key': "getAuthHeaders c' = Inr auth" by simp
  from c' have gone: "\<not> truthy (cache_get c' k)"
    by (simp add: cache_get_evicted)
  have again: "\<exists>rest. sent (snd (snd (dataPlaneRequest srv c2 n2 k endpoint options))) =
                        sent n2 @ describe_request auth name # rest"
    if "\<forall>ep opts. DataPlaneCall k ep opts \<notin> set calls" and "session srv (c', n') calls = (c2, n2)"
    for calls c2 n2 endpoint options
  proof -
    from session_keeps_falsy [OF that(2,1) gone] have miss: "\<not> truthy (cache_get c2 k)" .
    from session_headers [OF that(2)] key' have "getAuthHeaders c2 = Inr auth" by simp
    from dataPlaneRequest_miss_sent [OF miss this name] show ?thesis .
  qed
  with key' name
  show "\<exists>auth name.
           getAuthHeaders c' = Inr auth \<and> encodeURIComponent k = Some name
           \<and> (\<forall>calls c2 n2 endpoint options.
                (\<forall>ep opts. DataPlaneCall k ep opts \<notin> set calls)
                \<and> session srv (c', n') calls = (c2, n2) \<longrightarrow>
                (\<exists>rest. sent (snd (snd (dataPlaneRequest srv c2 n2 k endpoint options))) =
                          sent n2 @ describe_request auth name # rest))"
    by blast
next
  fix k'
  assume "deleteIndex srv c n k = (Inr (), c', n')" and "k' \<noteq> k"
  with deleteIndex_client [of srv c n k "Inr ()" c' n']
  show "map_get (indexHostCache c') k' = map_get (indexHostCache c) k'"
    by (auto simp add: map_get_map_delete)
next
  fix e
  assume "deleteIndex srv c n k = (Inl e, c', n')"
  from deleteIndex_client [OF this] show "c' = c" by simp
next
  fix call c1 n1 c2 n2 v
  assume step: "perform srv (c1, n1) call = (c2, n2)"
  {
    assume "map_get (indexHostCache c2) k = Some v \<and> map_get (indexHostCache c1) k \<noteq> Some v"
    with perform_entries [OF step, of k v]
    show "\<exists>ep opts index n3. call = DataPlaneCall k ep opts
               \<and> describeIndex srv c1 n1 k = (Inr index, n3)
               \<and> member index (js ''host'') = Inr v"
      by blast
  }
  {
    assume gone: "map_get (indexHostCache c1) k \<noteq> None \<and> map_get (indexHostCache c2) k = None"
    with perform_entries [OF step, of k v] show "call = DeleteIndexCall k" by blast
    from gone perform_entries [OF step, of k v] show "fst (deleteIndex srv c1 n1 k) = Inr ()"
      by blast
  }
qed

theorem delete_evicts_entry_witness:
  "fst resolved_deleted = Inr ()
   \<and> map_get (indexHostCache (fst (snd resolved_second))) (js ''idx'') =
       Some (Some (JStr (js ''idx-1.svc.pinecone.io'')))
   \<and> map_get (indexHostCache (fst (snd resolved_deleted))) (js ''idx'') = None
   \<and> (\<exists>rest. sent (snd (snd resolved_after_delete)) =
         sent (snd (snd resolved_deleted)) @ describe_request keyed_headers (js ''idx'') # rest)"
proof -
  let ?c' = "fst (snd resolved_deleted)" and ?n' = "snd (snd resolved_deleted)"
  have ok: "fst resolved_deleted = Inr ()"
    by code_simp
  have before: "map_get (indexHostCache (fst (snd resolved_second))) (js ''idx'') =
       Some (Some (JStr (js ''idx-1.svc.pinecone.io'')))"
    by code_simp
  from ok have del: "deleteIndex scripted (fst (snd resolved_second)) (snd (snd resolved_second))
                         (js ''idx'') = (Inr (), ?c', ?n')"
    by (simp add: resolved_deleted_def [symmetric] prod_eq_iff)
  have key: "getAuthHeaders ?c' = Inr keyed_headers"
    by code_simp
  have name: "encodeURIComponent (js ''idx'') = Some (js ''idx'')"
    by code_simp
  from delete_evicts_entry [of scripted "fst (snd resolved_second)" "snd (snd resolved_second)"
      "js ''idx''" ?c' ?n'] del
  have gone: "map_get (indexHostCache ?c') (js ''idx'') = None"
    and "\<exists>auth name.
           getAuthHeaders ?c' = Inr auth \<and> encodeURIComponent (js ''idx'') = Some name
           \<and> (\<forall>calls c2 n2 endpoint options.
                (\<forall>ep opts. DataPlaneCall (js ''idx'') ep opts \<notin> set calls)
                \<and> session scripted (?c', ?n') calls = (c2, n2) \<longrightarrow>
                (\<exists>rest. sent (snd (snd (dataPlaneRequest scripted c2 n2 (js ''idx'') endpoint options))) =
                          sent n2 @ describe_request auth name # rest))"
    by blast+
  then obtain auth nm where a: "getAuthHeaders ?c' = Inr auth"
    and b: "encodeURIComponent (js ''idx'') = Some nm"
    and again: "\<And>calls c2 n2 endpoint options.
                (\<forall>ep opts. DataPlaneCall (js ''idx'') ep opts \<notin> set calls) \<Longrightarrow>
                session scripted (?c', ?n') calls = (c2, n2) \<Longrightarrow>
                (\<exists>rest. sent (snd (snd (dataPlaneRequest scripted c2 n2 (js ''idx'') endpoint options))) =
                          sent n2 @ describe_request auth nm # rest)"
    by blast
  from a key b name have eq: "auth = keyed_headers" "nm = js ''idx''" by simp_all
  have "session scripted (?c', ?n') [] = (?c', ?n')" by (simp add: session_def)
  from again [OF _ this, of "js ''/describe_index_stats''" no_options]
  have "\<exists>rest. sent (snd (snd resolved_after_delete)) =
         sent ?n' @ describe_request keyed_headers (js ''idx'') # rest"
    by (simp add: resolved_after_delete_def eq)
  with ok before gone show ?thesis by simp
qed


section \<open>The key and the headers\<close>

lemma spread_empty: "spread auth [] = auth"
  by (simp add: spread_def)

lemma getAuthHeaders_no_key:
  "apiKey c = None \<or> apiKey c = Some [] \<Longrightarrow> getAuthHeaders c = Inl no_key_error"
  by (auto simp add: getAuthHeaders_def no_key_error_def)

lemma getAuthHeaders_key:
  "apiKey c = Some key \<Longrightarrow> key \<noteq> [] \<Longrightarrow> getAuthHeaders c = Inr (facade_headers key)"
  by (simp add: getAuthHeaders_def facade_headers_def API_VERSION_def)

lemma describeIndex_no_key:
  assumes "getAuthHeaders c = Inl e"
  shows "describeIndex srv c n k = (Inl (if encodeURIComponent k = None then URIError else e), n)"
  using assms
  by (auto simp add: describeIndex_def controlPlaneRequest_def request_no_key split: option.splits)

lemma dataPlaneRequest_sent_headers:
  assumes "getAuthHeaders c = Inr auth" and "init_headers options = None"
  shows "\<exists>rqs. sent (snd (snd (dataPlaneRequest srv c n k endpoint options))) = sent n @ rqs
               \<and> (\<forall>rq\<in>set rqs. req_headers rq = auth)"
proof (cases "truthy (cache_get c k)")
  case True
  have "req_headers (fetch_args auth (data_plane_url (cache_get c k) endpoint) options) = auth"
    using assms(2) by (simp add: fetch_args_def spread_empty)
  then show ?thesis
    by (simp add: dataPlaneRequest_hit [OF True] request_sent [OF assms(1)])
next
  case False
  show ?thesis
  proof (cases "encodeURIComponent k")
    case None
    with False show ?thesis
      by (simp add: dataPlaneRequest_def getIndexHost_def describeIndex_def)
  next
    case (Some name)
    have d: "req_headers (describe_request auth name :: 'a http_request) = auth"
      by (simp add: describe_request_def fetch_args_def no_options_def spread_empty)
    obtain res n1 where descr: "describeIndex srv c n k = (res, n1)"
      by (cases "describeIndex srv c n k")
    from describeIndex_sent [OF assms(1) Some, of srv n] descr
    have n1: "sent n1 = sent n @ [describe_request auth name]" by simp
    show ?thesis
    proof (cases res)
      case (Inl e)
      with descr False n1 d show ?thesis
        by (simp add: dataPlaneRequest_def getIndexHost_miss_failed)
    next
      case (Inr index)
      show ?thesis
      proof (cases "member index (js ''host'')")
        case (Inl e)
        with descr Inr False n1 d show ?thesis
          by (simp add: dataPlaneRequest_def getIndexHost_miss_no_host)
      next
        case (Inr h)
        from descr \<open>res = Inr index\<close> have "describeIndex srv c n k = (Inr index, n1)" by simp
        from dataPlaneRequest_miss_resolved [OF False this Inr]
        show ?thesis
          using n1 d request_sent [OF assms(1), of srv n1] assms(2)
          by (simp add: fetch_args_def spread_empty)
      qed
    qed
  qed
qed

text \<open>
  Claim C7, as amended. With a key that is \<open>undefined\<close> or empty, \<open>request\<close>, and
  with it every control-plane request and \<open>listIndexes\<close>, throws the
  \<open>AuthenticationError\<close> of \<open>getAuthHeaders\<close> and the network is as before: nothing
  was handed to \<open>fetch\<close>. The calls that encode an index name, \<open>describeIndex\<close>,
  \<open>deleteIndex\<close> and a data-plane request that has to resolve its host, throw
  \<open>URIError\<close> instead when the name cannot be encoded, also with the network as
  before. \<open>testConnection\<close> does not throw: it returns \<open>connected: false\<close> with the
  message of the error. With a key, and options that set no headers, as in every call
  the client makes, each request sent carries the three headers of
  \<open>getAuthHeaders\<close> and no other.
\<close>

theorem missing_key_is_found_locally:
  "(apiKey c = None \<or> apiKey c = Some [] \<longrightarrow>
      request srv c n u options = (Inl no_key_error, n)
      \<and> controlPlaneRequest srv c n endpoint options = (Inl no_key_error, n)
      \<and> listIndexes srv c n = (Inl no_key_error, n)
      \<and> describeIndex srv c n k =
          (Inl (if encodeURIComponent k = None then URIError else no_key_error), n)
      \<and> deleteIndex srv c n k =
          (Inl (if encodeURIComponent k = None then URIError else no_key_error), c, n)
      \<and> dataPlaneRequest srv c n k endpoint options =
          (Inl (if \<not> truthy (cache_get c k) \<and> encodeURIComponent k = None
                then URIError else no_key_error), c, n)
      \<and> testConnection E srv c n =
          (Inr \<lparr>connected = False, message = error_message E no_key_error\<rparr>, n))
   \<and> (\<forall>key. apiKey c = Some key \<and> key \<noteq> [] \<and> init_headers options = None \<longrightarrow>
        (\<exists>rq. sent (snd (request srv c n u options)) = sent n @ [rq]
              \<and> req_headers rq = facade_headers key)
        \<and> (\<exists>rq. sent (snd (controlPlaneRequest srv c n endpoint options)) = sent n @ [rq]
              \<and> req_headers rq = facade_headers key)
        \<and> (\<exists>rqs. sent (snd (snd (dataPlaneRequest srv c n k endpoint options))) = sent n @ rqs
              \<and> (\<forall>rq\<in>set rqs. req_headers rq = facade_headers key)))"
proof (intro conjI impI allI)
  assume "apiKey c = None \<or> apiKey c = Some []"
  then have nk: "getAuthHeaders c = Inl no_key_error"
    by (rule getAuthHeaders_no_key)
  show "request srv c n u options = (Inl no_key_error, n)"
    by (rule request_no_key [OF nk])
  show cp: "controlPlaneRequest srv c n endpoint options = (Inl no_key_error, n)"
    by (simp add: controlPlaneRequest_def request_no_key [OF nk])
  show li: "listIndexes srv c n = (Inl no_key_error, n)"
    by (simp add: listIndexes_def controlPlaneRequest_def request_no_key [OF nk])
  show "describeIndex srv c n k =
          (Inl (if encodeURIComponent k = None then URIError else no_key_error), n)"
    by (rule describeIndex_no_key [OF nk])
  show "deleteIndex srv c n k =
          (Inl (if encodeURIComponent k = None then URIError else no_key_error), c, n)"
    by (auto simp add: deleteIndex_def controlPlaneRequest_def request_no_key [OF nk]
        split: option.splits)
  show "dataPlaneRequest srv c n k endpoint options =
          (Inl (if \<not> truthy (cache_get c k) \<and> encodeURIComponent k = None
                then URIError else no_key_error), c, n)"
  proof (cases "truthy (cache_get c k)")
    case True
    then show ?thesis
      by (simp add: dataPlaneRequest_hit request_no_key [OF nk])
  next
    case False
    have "getIndexHost srv c n k =
            (Inl (if encodeURIComponent k = None then URIError else no_key_error), c, n)"
      by (rule getIndexHost_miss_failed [OF False describeIndex_no_key [OF nk]])
    with False show ?thesis
      by (simp add: dataPlaneRequest_def del: split_paired_All)
  qed
  show "testConnection E srv c n =
          (Inr \<lparr>connected = False, message = error_message E no_key_error\<rparr>, n)"
    by (simp add: testConnection_def li)
next
  fix key
  assume "apiKey c = Some key \<and> key \<noteq> [] \<and> init_headers options = None"
  then have key: "getAuthHeaders c = Inr (facade_headers key)"
    and plain: "init_headers options = None"
    by (simp_all add: getAuthHeaders_key)
  have h: "req_headers (fetch_args (facade_headers key) u' options) = facade_headers key" for u'
    using plain by (simp add: fetch_args_def spread_empty)
  show "\<exists>rq. sent (snd (request srv c n u options)) = sent n @ [rq]
              \<and> req_headers rq = facade_headers key"
    using request_sent [OF key, of srv n u options] h by blast
  show "\<exists>rq. sent (snd (controlPlaneRequest srv c n endpoint options)) = sent n @ [rq]
              \<and> req_headers rq = facade_headers key"
    unfolding controlPlaneRequest_def
    using request_sent [OF key, of srv n _ options] h by blast
  show "\<exists>rqs. sent (snd (snd (dataPlaneRequest srv c n k endpoint options))) = sent n @ rqs
              \<and> (\<forall>rq\<in>set rqs. req_headers rq = facade_headers key)"
    by (rule dataPlaneRequest_sent_headers [OF key plain])
qed

theorem missing_key_is_found_locally_witness:
  "testConnection example_errors scripted (new_client None)
       (answering [reply 200 [] matches_body] :: (unit, fetch_result list) net) =
     (Inr \<lparr>connected = False,
           message = js ''No API key provided. Include X-Pinecone-Api-Key header.''\<rparr>,
      answering [reply 200 [] matches_body])
   \<and> dataPlaneRequest scripted (new_client (Some [])) (answering [reply 200 [] matches_body])
       (js ''idx'') (js ''/describe_index_stats'') (no_options :: unit request_init) =
     (Inl no_key_error, new_client (Some []), answering [reply 200 [] matches_body])
   \<and> (\<exists>rqs. sent (snd (snd resolved_first)) = rqs
         \<and> (\<forall>rq\<in>set rqs. req_headers rq = facade_headers (js ''secret'')))"
proof -
  let ?n = "answering [reply 200 [] matches_body] :: (unit, fetch_result list) net"
  have none: "apiKey (new_client None) = None \<or> apiKey (new_client None) = Some []"
    by (simp add: new_client_def)
  have empty: "apiKey (new_client (Some [])) = None \<or> apiKey (new_client (Some [])) = Some []"
    by (simp add: new_client_def)
  have msg: "error_message example_errors no_key_error =
               js ''No API key provided. Include X-Pinecone-Api-Key header.''"
    by (simp add: example_errors_def no_key_error_def)
  have enc: "encodeURIComponent (js ''idx'') \<noteq> None"
    by code_simp
  have key: "apiKey keyed_client = Some (js ''secret'') \<and> js ''secret'' \<noteq> []
             \<and> init_headers (no_options :: unit request_init) = None"
    by (simp add: keyed_client_def new_client_def no_options_def js_def)
  note T1 = missing_key_is_found_locally [where c = "new_client None" and srv = scripted
      and n = ?n and E = example_errors, THEN conjunct1, THEN mp, OF none]
  have a: "testConnection example_errors scripted (new_client None) ?n =
     (Inr \<lparr>connected = False, message = error_message example_errors no_key_error\<rparr>, ?n)"
    by (rule T1 [THEN conjunct2, THEN conjunct2, THEN conjunct2, THEN conjunct2,
          THEN conjunct2, THEN conjunct2])
  note T2 = missing_key_is_found_locally [where c = "new_client (Some [])" and srv = scripted
      and n = ?n and options = no_options and k = "js ''idx''"
      and endpoint = "js ''/describe_index_stats''", THEN conjunct1, THEN mp, OF empty]
  have b: "dataPlaneRequest scripted (new_client (Some [])) ?n (js ''idx'')
             (js ''/describe_index_stats'') no_options =
     (Inl (if \<not> truthy (cache_get (new_client (Some [])) (js ''idx''))
              \<and> encodeURIComponent (js ''idx'') = None
           then URIError else no_key_error), new_client (Some []), ?n)"
    by (rule T2 [THEN conjunct2, THEN conjunct2, THEN conjunct2, THEN conjunct2,
          THEN conjunct2, THEN conjunct1])
  note T3 = missing_key_is_found_locally [where c = keyed_client and srv = scripted
      and n = "answering [reply 200 [] host_body, reply 200 [] matches_body,
                  reply 200 [] matches_body, reply 202 [] [],
                  reply 200 [] host_body, reply 200 [] matches_body]"
      and options = no_options and k = "js ''idx''"
      and endpoint = "js ''/describe_index_stats''",
      THEN conjunct2, THEN spec, THEN mp, OF key]
  have c: "\<exists>rqs. sent (snd (snd resolved_first)) = sent (answering
                 [reply 200 [] host_body, reply 200 [] matches_body,
                  reply 200 [] matches_body, reply 202 [] [],
                  reply 200 [] host_body, reply 200 [] matches_body]) @ rqs
         \<and> (\<forall>rq\<in>set rqs. req_headers rq = facade_headers (js ''secret''))"
    unfolding resolved_first_def
    by (rule T3 [THEN conjunct2, THEN conjunct2])
  from a b c enc show ?thesis
    by (simp add: msg answering_def)
qed

text \<open>
  Claim C7 as stated fails for \<open>testConnection\<close>, which with no key returns
  \<open>connected: false\<close> instead of throwing, and for a call whose index name is a lone
  surrogate, which throws \<open>URIError\<close> before the key is looked at.
\<close>

theorem missing_key_not_always_authentication_error:
  "fst (testConnection example_errors scripted (new_client None)
          (answering [] :: (unit, fetch_result list) net)) =
     Inr \<lparr>connected = False,
          message = js ''No API key provided. Include X-Pinecone-Api-Key header.''\<rparr>
   \<and> fst (deleteIndex scripted (new_client None)
          (answering [] :: (unit, fetch_result list) net) [55296]) = Inl URIError"
  by (simp add: testConnection_def listIndexes_def controlPlaneRequest_def request_def
      getAuthHeaders_def new_client_def example_errors_def deleteIndex_def unreserved_def)

section \<open>The query tool\<close>

lemma handle_response_not_plain: "handle_response r \<noteq> Inl (Error m)"
  by (simp add: handle_response_def split: option.splits)

lemma request_not_plain: "fst (request srv c n u options) \<noteq> Inl (Error m)"
  by (auto simp add: request_def getAuthHeaders_def handle_response_not_plain
      split: option.splits sum.splits prod.splits fetch_result.splits)

lemma member_not_plain: "member v k \<noteq> Inl (Error m)"
  by (cases "(v, k)" rule: member.cases) simp_all

lemma describeIndex_not_plain: "fst (describeIndex srv c n k) \<noteq> Inl (Error m)"
  by (simp add: describeIndex_def controlPlaneRequest_def request_not_plain split: option.splits)

lemma dataPlaneRequest_not_plain:
  "fst (dataPlaneRequest srv c n k endpoint options) \<noteq> Inl (Error m)"
proof (cases "truthy (cache_get c k)")
  case True
  then show ?thesis
    by (simp add: dataPlaneRequest_hit request_not_plain)
next
  case False
  obtain res n1 where descr: "describeIndex srv c n k = (res, n1)"
    by (cases "describeIndex srv c n k")
  show ?thesis
  proof (cases res)
    case (Inl e)
    with descr describeIndex_not_plain [of srv c n k m] have "e \<noteq> Error m" by auto
    with Inl descr False show ?thesis
      by (simp add: dataPlaneRequest_def getIndexHost_miss_failed)
  next
    case (Inr index)
    show ?thesis
    proof (cases "member index (js ''host'')")
      case (Inl e)
      with member_not_plain [of index "js ''host''" m] have "e \<noteq> Error m" by auto
      with Inl Inr descr False show ?thesis
        by (simp add: dataPlaneRequest_def getIndexHost_miss_no_host)
    next
      case (Inr h)
      from descr \<open>res = Inr index\<close> have "describeIndex srv c n k = (Inr index, n1)" by simp
      from dataPlaneRequest_miss_resolved [OF False this Inr] show ?thesis
        by (simp add: request_not_plain)
    qed
  qed
qed

lemma dataPlaneRequest_sends:
  assumes "getAuthHeaders c = Inr auth" and "encodeURIComponent k = Some name"
  shows "\<exists>rq rest. sent (snd (snd (dataPlaneRequest srv c n k endpoint options))) =
                     sent n @ rq # rest"
proof (cases "truthy (cache_get c k)")
  case True
  then show ?thesis
    by (simp add: dataPlaneRequest_hit request_sent [OF assms(1)])
next
  case False
  from dataPlaneRequest_miss_sent [OF False assms] show ?thesis by blast
qed

text \<open>
  Claim C8, as amended. A query with no vector and no id, or with no vector and an
  empty id, is answered by the handler itself with the error line
  \<open>Error: Must provide either vector or id\<close>; the client and the network are as
  before, so nothing was sent. The error is a plain \<open>Error\<close>, which \<open>queryVectors\<close>
  never throws. Every other query, one with both a vector and an id included, goes to
  \<open>queryVectors\<close> as it is: the network afterwards is that of \<open>queryVectors\<close>, a
  request is sent whenever the key is there and the index name can be encoded, and
  with the host in the cache the one request sent is the query with the request as
  its body.
\<close>

theorem query_needs_vector_or_id:
  "(q_vector rq = None \<and> \<not> truthy_string (q_id rq) \<longrightarrow>
      pinecone_query_vectors E srv c n k rq =
        (ErrorResult (js ''Error: Must provide either vector or id'')
           (formatErrorForLogging E (Error (js ''Must provide either vector or id''))), c, n))
   \<and> (\<forall>m. fst (queryVectors srv c n k rq) \<noteq> Inl (Error m))
   \<and> (q_vector rq \<noteq> None \<or> truthy_string (q_id rq) \<longrightarrow>
        snd (pinecone_query_vectors E srv c n k rq) = snd (queryVectors srv c n k rq)
        \<and> (\<forall>auth name. getAuthHeaders c = Inr auth \<and> encodeURIComponent k = Some name \<longrightarrow>
              (\<exists>rq' rest. sent (snd (snd (pinecone_query_vectors E srv c n k rq))) =
                            sent n @ rq' # rest))
        \<and> (\<forall>auth. getAuthHeaders c = Inr auth \<and> truthy (cache_get c k) \<longrightarrow>
              sent (snd (snd (pinecone_query_vectors E srv c n k rq))) =
                sent n @ [fetch_args auth (data_plane_url (cache_get c k) (js ''/query''))
                            \<lparr>init_method = Some (js ''POST''),
                             init_body = Some (JSON_stringify rq),
                             init_headers = None\<rparr>]))"
proof (intro conjI impI allI)
  assume "q_vector rq = None \<and> \<not> truthy_string (q_id rq)"
  then show "pinecone_query_vectors E srv c n k rq =
        (ErrorResult (js ''Error: Must provide either vector or id'')
           (formatErrorForLogging E (Error (js ''Must provide either vector or id''))), c, n)"
    by (simp add: pinecone_query_vectors_def js_def)
next
  fix m
  show "fst (queryVectors srv c n k rq) \<noteq> Inl (Error m)"
    by (simp add: queryVectors_def dataPlaneRequest_not_plain)
next
  assume given: "q_vector rq \<noteq> None \<or> truthy_string (q_id rq)"
  then show fwd: "snd (pinecone_query_vectors E srv c n k rq) = snd (queryVectors srv c n k rq)"
    by (auto simp add: pinecone_query_vectors_def split: prod.splits sum.splits)
  {
    fix auth name
    assume "getAuthHeaders c = Inr auth \<and> encodeURIComponent k = Some name"
    then have "\<exists>rq' rest. sent (snd (snd (queryVectors srv c n k rq))) = sent n @ rq' # rest"
      unfolding queryVectors_def by (intro dataPlaneRequest_sends) simp_all
    with fwd show "\<exists>rq' rest. sent (snd (snd (pinecone_query_vectors E srv c n k rq))) =
                            sent n @ rq' # rest"
      by simp
  }
  {
    fix auth
    assume "getAuthHeaders c = Inr auth \<and> truthy (cache_get c k)"
    then have key: "getAuthHeaders c = Inr auth" and hit: "truthy (cache_get c k)"
      by simp_all
    show "sent (snd (snd (pinecone_query_vectors E srv c n k rq))) =
            sent n @ [fetch_args auth (data_plane_url (cache_get c k) (js ''/query''))
                        \<lparr>init_method = Some (js ''POST''),
                         init_body = Some (JSON_stringify rq),
                         init_headers = None\<rparr>]"
      by (simp add: fwd queryVectors_def dataPlaneRequest_hit [OF hit] request_sent [OF key])
  }
qed

theorem query_needs_vector_or_id_witness:
  "pinecone_query_vectors example_errors scripted keyed_client
       (answering [reply 200 [] matches_body]) (js ''idx'') query_with_neither =
     (ErrorResult (js ''Error: Must provide either vector or id'')
        (Error (js ''Must provide either vector or id'')),
      keyed_client, answering [reply 200 [] matches_body])
   \<and> sent (snd (snd (pinecone_query_vectors example_errors scripted cached_client
       (answering [reply 200 [] matches_body]) (js ''idx'') query_with_both))) =
     [query_request_sent query_with_both]"
proof -
  let ?n = "answering [reply 200 [] matches_body] :: (query_request serialized, fetch_result list) net"
  have neither: "q_vector query_with_neither = None \<and> \<not> truthy_string (q_id query_with_neither)"
    by (simp add: query_with_neither_def truthy_string_def)
  have both: "q_vector query_with_both \<noteq> None \<or> truthy_string (q_id query_with_both)"
    by (simp add: query_with_both_def)
  have key: "getAuthHeaders cached_client = Inr keyed_headers \<and> truthy (cache_get cached_client (js ''idx''))"
    by (simp add: getAuthHeaders_def cached_client_def keyed_headers_def API_VERSION_def
        cache_get_def map_get_def js_def)
  have url: "data_plane_url (cache_get cached_client (js ''idx'')) (js ''/query'') =
               Url (js ''https://idx-1.svc.pinecone.io/query'')"
    by (simp add: data_plane_url_def cache_get_def cached_client_def map_get_def js_def)
  note T1 = query_needs_vector_or_id [where rq = query_with_neither and E = example_errors
      and srv = scripted and c = keyed_client and n = ?n and k = "js ''idx''",
      THEN conjunct1, THEN mp, OF neither]
  note T2 = query_needs_vector_or_id [where rq = query_with_both and E = example_errors
      and srv = scripted and c = cached_client and n = ?n and k = "js ''idx''",
      THEN conjunct2, THEN conjunct2, THEN mp, OF both,
      THEN conjunct2, THEN conjunct2, THEN spec, THEN mp, OF key]
  from T1 T2 show ?thesis
    by (simp add: url query_request_sent_def example_errors_def answering_def)
qed

text \<open>
  Claim C8 as stated fails for a query that supplies both a vector and an id: it is
  not rejected, but sent to the data plane with both, after the describe request.
\<close>

theorem query_with_vector_and_id_is_sent:
  "pinecone_query_vectors example_errors scripted keyed_client
       (answering [reply 200 [] host_body, reply 200 [] matches_body])
       (js ''idx'') query_with_both =
     (DataResult \<lparr>matches = Some (JArr []), namespace = Some (JStr []),
                  matchCount = Some (JNum 0), usage = None\<rparr>,
      cached_client,
      \<lparr>server_state = [],
       sent = [describe_request keyed_headers (js ''idx''),
               query_request_sent query_with_both]\<rparr>)"
  by code_simp

end
